theory Spec2Isabelle
  imports Complex_Main "HOL-Library.AList" "HOL-Library.Multiset" "HOL-Library.Sublist"
    "HOL-Library.Word"
begin

unbundle bit_operations_syntax

section \<open>Numbers, strings and colours\<close>

text \<open>
  The plugin is JavaScript. Its numbers are IEEE doubles; colour channels, opacities,
  thresholds and distances are modelled here as exact reals, so rounding of the
  floating-point operations themselves is outside this development. Integers that the
  program produces by \<^verbatim>\<open>Math.round\<close>, \<^verbatim>\<open>parseInt\<close> and the bit operators are
  modelled exactly, the 32-bit operands of \<^verbatim>\<open>>>\<close> and \<^verbatim>\<open>&\<close> as \<open>32 word\<close>.
  A string is the list of its code units, for code units below 256.

  A colour is the object \<^verbatim>\<open>{r, g, b}\<close> of the host, a scanned colour the object
  \<^verbatim>\<open>{r, g, b, a}\<close> built by \<^verbatim>\<open>extractPaints\<close>. The selectors are spelled out
  (\<open>red\<close> for \<^verbatim>\<open>r\<close> and so on) because a one-letter constant would capture the
  variables of every later statement.
\<close>

record rgb =
  red :: real
  green :: real
  blue :: real

record rgba = rgb +
  alpha :: real

subsection \<open>\<^verbatim>\<open>toHex\<close>\<close>

text \<open>\<^verbatim>\<open>Math.round\<close> rounds to the nearest integer, a tie towards plus infinity.\<close>

definition Math_round :: "real \<Rightarrow> int" where
  "Math_round x = \<lfloor>x + 1 / 2\<rfloor>"

definition hex_digit :: "nat \<Rightarrow> char" where
  "hex_digit d = ''0123456789abcdef'' ! d"

text \<open>The digits of a natural number in radix 16, most significant first.\<close>

fun nat_to_hex :: "nat \<Rightarrow> string" where
  "nat_to_hex n =
     (if n < 16 then [hex_digit n] else nat_to_hex (n div 16) @ [hex_digit (n mod 16)])"

declare nat_to_hex.simps [simp del]

text \<open>\<^verbatim>\<open>Number.prototype.toString(16)\<close> on an integer: a minus sign, then the digits.\<close>

definition toString16 :: "int \<Rightarrow> string" where
  "toString16 k = (if k < 0 then CHR ''-'' # nat_to_hex (nat (- k)) else nat_to_hex (nat k))"

text \<open>\<^verbatim>\<open>padStart(2, "0")\<close>: zeros in front up to length 2, nothing for a longer string.\<close>

definition padStart2 :: "string \<Rightarrow> string" where
  "padStart2 s = replicate (2 - length s) CHR ''0'' @ s"

text \<open>
  \<^verbatim>\<open>toUpperCase\<close> on the letters a to z; the strings it is applied to hold hex digits
  and minus signs only.
\<close>

definition upper_char :: "char \<Rightarrow> char" where
  "upper_char c =
     (case map_of (zip ''abcdefghijklmnopqrstuvwxyz'' ''ABCDEFGHIJKLMNOPQRSTUVWXYZ'') c of
        None \<Rightarrow> c
      | Some u \<Rightarrow> u)"

definition toUpperCase :: "string \<Rightarrow> string" where
  "toUpperCase s = map upper_char s"

definition toHex :: "real \<Rightarrow> real \<Rightarrow> real \<Rightarrow> string" where
  "toHex rv gv bv =
     toUpperCase (concat (map (\<lambda>v. padStart2 (toString16 (Math_round (v * 255)))) [rv, gv, bv]))"

subsection \<open>\<^verbatim>\<open>hexToRgb\<close>\<close>

text \<open>\<^verbatim>\<open>hex.replace("#", "")\<close> removes the first \<^verbatim>\<open>#\<close> of the string, wherever it is.\<close>

definition replace_hash :: "string \<Rightarrow> string" where
  "replace_hash s = remove1 CHR ''#'' s"

text \<open>The white space and line terminators of ECMAScript among the code units below 256.\<close>

definition is_white_space :: "char \<Rightarrow> bool" where
  "is_white_space c =
     (c \<in> {CHR 0x09, CHR 0x0A, CHR 0x0B, CHR 0x0C, CHR 0x0D, CHR '' '', CHR 0xA0})"

text \<open>The value of a digit of radix 16, in either case.\<close>

definition digit_value :: "char \<Rightarrow> nat option" where
  "digit_value c =
     map_of (zip ''0123456789abcdef'' [0, 1, 2, 3, 4, 5, 6, 7, 8, 9, 10, 11, 12, 13, 14, 15]
             @ zip ''ABCDEF'' [10, 11, 12, 13, 14, 15]) c"

definition is_hex_digit :: "char \<Rightarrow> bool" where
  "is_hex_digit c = (digit_value c \<noteq> None)"

definition hex_value :: "string \<Rightarrow> nat" where
  "hex_value z = foldl (\<lambda>acc c. 16 * acc + the (digit_value c)) 0 z"

text \<open>
  The value of \<^verbatim>\<open>parseInt\<close> is a double. An integer below \<open>2 ^ 53\<close> is one already; a
  longer one is rounded to 53 significant bits, a tie to the even neighbour, and becomes
  infinite from \<open>2 ^ 1024\<close> on (\<open>None\<close> here).
\<close>

fun bit_length :: "nat \<Rightarrow> nat" where
  "bit_length n = (if n = 0 then 0 else Suc (bit_length (n div 2)))"

declare bit_length.simps [simp del]

definition to_double :: "nat \<Rightarrow> nat option" where
  "to_double m =
     (if m < 2 ^ 53 then Some m
      else
        let e = bit_length m - 53;
            q = m div 2 ^ e;
            rest = m mod 2 ^ e;
            half = 2 ^ (e - 1);
            q' = (if half < rest \<or> (rest = half \<and> odd q) then q + 1 else q)
        in if 2 ^ 1024 \<le> q' * 2 ^ e then None else Some (q' * 2 ^ e))"

datatype number = NaN | Infinity | MinusInfinity | Num int

text \<open>
  \<^verbatim>\<open>parseInt(s, 16)\<close>: leading white space is skipped, then one sign, then one
  \<^verbatim>\<open>0x\<close> or \<^verbatim>\<open>0X\<close>; the longest run of hex digits that follows is the number, and
  the rest of the string is ignored. No digit at all gives \<^verbatim>\<open>NaN\<close>.
\<close>

definition parseInt16 :: "string \<Rightarrow> number" where
  "parseInt16 s =
     (let S = dropWhile is_white_space s;
          neg = (S \<noteq> [] \<and> hd S = CHR ''-'');
          S1 = (if S \<noteq> [] \<and> (hd S = CHR ''+'' \<or> hd S = CHR ''-'') then tl S else S);
          S2 = (if take 2 S1 = ''0x'' \<or> take 2 S1 = ''0X'' then drop 2 S1 else S1);
          Z = takeWhile is_hex_digit S2
      in if Z = [] then NaN
         else case to_double (hex_value Z) of
                None \<Rightarrow> (if neg then MinusInfinity else Infinity)
              | Some m \<Rightarrow> Num (if neg then - int m else int m))"

text \<open>\<^verbatim>\<open>ToInt32\<close>, applied by \<^verbatim>\<open>>>\<close> and \<^verbatim>\<open>&\<close> to their operands.\<close>

fun ToInt32 :: "number \<Rightarrow> 32 word" where
  "ToInt32 (Num n) = word_of_int n"
| "ToInt32 _ = 0"

definition hexToRgb :: "string \<Rightarrow> rgb" where
  "hexToRgb hex =
     (let n = ToInt32 (parseInt16 (replace_hash hex)) in
      \<lparr>red = real (unat (signed_drop_bit 16 n AND 255)) / 255,
       green = real (unat (signed_drop_bit 8 n AND 255)) / 255,
       blue = real (unat (n AND 255)) / 255\<rparr>)"

subsection \<open>\<^verbatim>\<open>colorDistance\<close>\<close>

definition colorDistance :: "'x rgb_scheme \<Rightarrow> 'y rgb_scheme \<Rightarrow> real" where
  "colorDistance c d =
     (let dr = (red c - red d) * 255;
          dg = (green c - green d) * 255;
          db = (blue c - blue d) * 255
      in sqrt (dr * dr + dg * dg + db * db))"

section \<open>The document of the host\<close>

text \<open>
  The program reads and writes the document through the plugin interface of the host.
  What it uses of a paint is its \<^verbatim>\<open>type\<close>, \<^verbatim>\<open>visible\<close>, \<^verbatim>\<open>opacity\<close> and
  \<^verbatim>\<open>color\<close>; \<^verbatim>\<open>blendMode\<close> stands for the properties it never touches. A property
  that may be missing (\<^verbatim>\<open>undefined\<close>) is an option. The program reads \<^verbatim>\<open>color\<close>
  only behind the test \<^verbatim>\<open>type === "SOLID"\<close>, so the field of a paint of another type
  is never looked at.
\<close>

record paint =
  paint_type :: string
  visible :: "bool option"
  opacity :: "real option"
  blendMode :: "string option"
  paint_color :: rgb

text \<open>A paint list of a node is a list or the sentinel \<^verbatim>\<open>figma.mixed\<close>.\<close>

datatype paints = Mixed | Paints "paint list"

text \<open>
  \<open>fills node = None\<close> says that the node has no such property (\<^verbatim>\<open>"fills" in node\<close>
  is false). \<open>rejects_writes\<close> says that the host throws when a paint list of the node
  is assigned, as it does for the nodes the source calls locked or component nodes.
\<close>

record node =
  node_id :: string
  fills :: "paints option"
  strokes :: "paints option"
  rejects_writes :: bool

record paint_style =
  style_name :: string
  style_paints :: "paint list"

text \<open>
  The document: its nodes in the order of \<^verbatim>\<open>figma.currentPage.findAll()\<close>, and its
  local paint styles. Pages other than the current one are not modelled.
\<close>

record document =
  doc_nodes :: "node list"
  doc_styles :: "paint_style list"

section \<open>Scan\<close>

datatype slot_kind = Fill | Stroke

record paint_ref =
  nodeId :: string
  source :: slot_kind
  index :: nat

record color_entry =
  color :: rgba
  hex :: string
  nodes :: "paint_ref list"

text \<open>
  \<^verbatim>\<open>colorMap\<close> is a JavaScript object used as a dictionary. It is modelled by the list of
  its properties in the order of their creation; \<open>Object_values\<close> below gives the order
  in which the language enumerates them. The keys come from \<open>toHex\<close> and hold no
  lower-case letter, so that none of them names a property the object inherits, and the
  test \<^verbatim>\<open>!colorMap[hex]\<close> asks whether the key is new.
\<close>

type_synonym color_map = "(string \<times> color_entry) list"

fun extractPaints :: "paints option \<Rightarrow> rgba list" where
  "extractPaints None = []"
| "extractPaints (Some Mixed) = []"
| "extractPaints (Some (Paints ps)) =
     map (\<lambda>p. \<lparr>red = red (paint_color p), green = green (paint_color p),
               blue = blue (paint_color p),
               alpha = (case opacity p of None \<Rightarrow> 1 | Some v \<Rightarrow> v)\<rparr>)
       (filter (\<lambda>p. paint_type p = ''SOLID'' \<and> visible p \<noteq> Some False) ps)"

text \<open>
  The body of the two \<^verbatim>\<open>forEach\<close> callbacks: create the entry of the colour's key if
  there is none, then push the reference.
\<close>

definition add_ref :: "color_map \<Rightarrow> rgba \<Rightarrow> paint_ref \<Rightarrow> color_map" where
  "add_ref colorMap c ref =
     (let h = toHex (red c) (green c) (blue c);
          e = (case map_of colorMap h of
                 None \<Rightarrow> \<lparr>color = c, hex = h, nodes = []\<rparr>
               | Some e \<Rightarrow> e)
      in AList.update h (e\<lparr>nodes := nodes e @ [ref]\<rparr>) colorMap)"

text \<open>\<^verbatim>\<open>paints.forEach((c, i) => ...)\<close>: \<open>i\<close> counts the elements of \<open>paints\<close>.\<close>

definition add_paints :: "string \<Rightarrow> slot_kind \<Rightarrow> rgba list \<Rightarrow> color_map \<Rightarrow> color_map" where
  "add_paints nid kind cs colorMap =
     fold (\<lambda>(i, c) m. add_ref m c \<lparr>nodeId = nid, source = kind, index = i\<rparr>)
       (enumerate 0 cs) colorMap"

definition scan_node :: "node \<Rightarrow> color_map \<Rightarrow> color_map" where
  "scan_node n colorMap =
     (let m1 = (if fills n \<noteq> None
                then add_paints (node_id n) Fill (extractPaints (fills n)) colorMap
                else colorMap)
      in if strokes n \<noteq> None
         then add_paints (node_id n) Stroke (extractPaints (strokes n)) m1
         else m1)"

definition scanColors :: "document \<Rightarrow> color_map" where
  "scanColors doc = fold scan_node (doc_nodes doc) []"

section \<open>Grouping\<close>

text \<open>
  \<^verbatim>\<open>Object.values\<close> enumerates the properties of an object in the order the language
  fixes: the keys that are array indices (the canonical decimal numerals below
  \<open>2 ^ 32 - 1\<close>, such as \<^verbatim>\<open>"123456"\<close>) by ascending value, then the other keys in the order
  of their creation.
\<close>

definition is_dec_digit :: "char \<Rightarrow> bool" where
  "is_dec_digit c = (c \<in> set ''0123456789'')"

definition dec_value :: "string \<Rightarrow> nat" where
  "dec_value k = foldl (\<lambda>acc c. 10 * acc + the (digit_value c)) 0 k"

definition is_array_index :: "string \<Rightarrow> bool" where
  "is_array_index k =
     (k \<noteq> [] \<and> list_all is_dec_digit k \<and> (k = ''0'' \<or> hd k \<noteq> CHR ''0'')
      \<and> dec_value k < 2 ^ 32 - 1)"

definition Object_values :: "(string \<times> 'v) list \<Rightarrow> 'v list" where
  "Object_values obj =
     map snd (sort_key (\<lambda>p. dec_value (fst p)) (filter (\<lambda>p. is_array_index (fst p)) obj)
              @ filter (\<lambda>p. \<not> is_array_index (fst p)) obj)"

record color_group =
  representative :: color_entry
  members :: "color_entry list"

text \<open>
  The loop over \<open>j\<close>: the entries after the representative, in order, with the set
  \<open>assigned\<close>; it returns the members it pushed and the set it leaves.
\<close>

fun inner_loop ::
  "color_entry \<Rightarrow> real \<Rightarrow> color_entry list \<Rightarrow> string set \<Rightarrow> color_entry list \<times> string set"
where
  "inner_loop rep threshold [] assigned = ([], assigned)"
| "inner_loop rep threshold (e # es) assigned =
     (if hex e \<in> assigned then inner_loop rep threshold es assigned
      else if colorDistance (color rep) (color e) \<le> threshold then
        (let (ms, assigned') = inner_loop rep threshold es (insert (hex e) assigned)
         in (e # ms, assigned'))
      else inner_loop rep threshold es assigned)"

text \<open>The loop over \<open>i\<close>; it returns the groups in the order they are pushed.\<close>

fun outer_loop :: "real \<Rightarrow> color_entry list \<Rightarrow> string set \<Rightarrow> color_group list" where
  "outer_loop threshold [] assigned = []"
| "outer_loop threshold (e # es) assigned =
     (if hex e \<in> assigned then outer_loop threshold es assigned
      else
        (let (ms, assigned') = inner_loop e threshold es (insert (hex e) assigned)
         in \<lparr>representative = e, members = e # ms\<rparr> # outer_loop threshold es assigned'))"

text \<open>\<^verbatim>\<open>members.reduce((s, m) => s + m.nodes.length, 0)\<close>\<close>

definition totalCount :: "color_group \<Rightarrow> nat" where
  "totalCount grp = foldl (\<lambda>s m. s + length (nodes m)) 0 (members grp)"

text \<open>
  \<^verbatim>\<open>Array.prototype.sort\<close> with a comparator. The language requires the sort to be
  stable, which fixes its result for a consistent comparator; it is modelled by the
  insertion sort that puts an element in front of the first one it does not follow.
\<close>

fun insert_by :: "('v \<Rightarrow> 'v \<Rightarrow> int) \<Rightarrow> 'v \<Rightarrow> 'v list \<Rightarrow> 'v list" where
  "insert_by cmp x [] = [x]"
| "insert_by cmp x (y # ys) = (if cmp x y \<le> 0 then x # y # ys else y # insert_by cmp x ys)"

definition Array_sort :: "('v \<Rightarrow> 'v \<Rightarrow> int) \<Rightarrow> 'v list \<Rightarrow> 'v list" where
  "Array_sort cmp xs = foldr (insert_by cmp) xs []"

text \<open>The comparator of the source: \<^verbatim>\<open>countB - countA\<close>.\<close>

definition by_usage_desc :: "color_group \<Rightarrow> color_group \<Rightarrow> int" where
  "by_usage_desc ga gb = int (totalCount gb) - int (totalCount ga)"

text \<open>The groups as the two loops find them, before the sort.\<close>

definition discovered_groups :: "color_map \<Rightarrow> real \<Rightarrow> color_group list" where
  "discovered_groups colorMap threshold = outer_loop threshold (Object_values colorMap) {}"

definition groupSimilarColors :: "color_map \<Rightarrow> real \<Rightarrow> color_group list" where
  "groupSimilarColors colorMap threshold =
     Array_sort by_usage_desc (discovered_groups colorMap threshold)"

section \<open>Apply merge\<close>

text \<open>
  \<^verbatim>\<open>figma.getNodeByIdAsync\<close> gives a handle on the node with that id, or \<^verbatim>\<open>null\<close>. The
  handle is the position of the node in the document.
\<close>

fun getNodeById :: "node list \<Rightarrow> string \<Rightarrow> nat option" where
  "getNodeById [] nid = None"
| "getNodeById (n # ns) nid =
     (if node_id n = nid then Some 0 else map_option Suc (getNodeById ns nid))"

text \<open>An exception is a value; the only one of the model is the host refusing a write.\<close>

datatype error = WriteRejected

text \<open>The two setters of the host, \<^verbatim>\<open>node.fills = ...\<close> and \<^verbatim>\<open>node.strokes = ...\<close>.\<close>

definition set_fills :: "nat \<Rightarrow> paint list \<Rightarrow> document \<Rightarrow> error + document" where
  "set_fills i ps doc =
     (let n = doc_nodes doc ! i in
      if rejects_writes n then Inl WriteRejected
      else Inr (doc\<lparr>doc_nodes := (doc_nodes doc)[i := n\<lparr>fills := Some (Paints ps)\<rparr>]\<rparr>))"

definition set_strokes :: "nat \<Rightarrow> paint list \<Rightarrow> document \<Rightarrow> error + document" where
  "set_strokes i ps doc =
     (let n = doc_nodes doc ! i in
      if rejects_writes n then Inl WriteRejected
      else Inr (doc\<lparr>doc_nodes := (doc_nodes doc)[i := n\<lparr>strokes := Some (Paints ps)\<rparr>]\<rparr>))"

text \<open>
  The copy \<^verbatim>\<open>JSON.parse(JSON.stringify(list))\<close> with the colour of one slot replaced.
\<close>

definition recolor :: "paint list \<Rightarrow> nat \<Rightarrow> rgb \<Rightarrow> paint list" where
  "recolor ps i targetColor = ps[i := (ps ! i)\<lparr>paint_color := targetColor\<rparr>]"

text \<open>
  The block under \<^verbatim>\<open>try\<close>, for the node at position \<open>i\<close>: \<open>Inl\<close> is an exception
  leaving the block, \<open>Inr\<close> the document and the counter at its end. A slot that is
  out of range reads as \<^verbatim>\<open>undefined\<close> and fails the test.
\<close>

definition try_block ::
  "rgb \<Rightarrow> paint_ref \<Rightarrow> nat \<Rightarrow> document \<times> nat \<Rightarrow> error + document \<times> nat" where
  "try_block targetColor ref i s =
     (let (doc, changed) = s; n = doc_nodes doc ! i in
      if source ref = Fill \<and> fills n \<noteq> None \<and> fills n \<noteq> Some Mixed then
        (case fills n of
           Some (Paints ps) \<Rightarrow>
             if index ref < length ps \<and> paint_type (ps ! index ref) = ''SOLID'' then
               (case set_fills i (recolor ps (index ref) targetColor) doc of
                  Inl e \<Rightarrow> Inl e
                | Inr doc' \<Rightarrow> Inr (doc', changed + 1))
             else Inr (doc, changed)
         | _ \<Rightarrow> Inr (doc, changed))
      else if source ref = Stroke \<and> strokes n \<noteq> None \<and> strokes n \<noteq> Some Mixed then
        (case strokes n of
           Some (Paints ps) \<Rightarrow>
             if index ref < length ps \<and> paint_type (ps ! index ref) = ''SOLID'' then
               (case set_strokes i (recolor ps (index ref) targetColor) doc of
                  Inl e \<Rightarrow> Inl e
                | Inr doc' \<Rightarrow> Inr (doc', changed + 1))
             else Inr (doc, changed)
         | _ \<Rightarrow> Inr (doc, changed))
      else Inr (doc, changed))"

text \<open>
  The body of the innermost loop: \<^verbatim>\<open>continue\<close> when there is no node, otherwise the
  block under \<^verbatim>\<open>try\<close>, whose exception the empty \<^verbatim>\<open>catch\<close> drops.
\<close>

definition apply_ref :: "rgb \<Rightarrow> paint_ref \<Rightarrow> document \<times> nat \<Rightarrow> document \<times> nat" where
  "apply_ref targetColor ref s =
     (case getNodeById (doc_nodes (fst s)) (nodeId ref) of
        None \<Rightarrow> s
      | Some i \<Rightarrow> (case try_block targetColor ref i s of Inl e \<Rightarrow> s | Inr s' \<Rightarrow> s'))"

definition applyMerge :: "color_group list \<Rightarrow> string \<Rightarrow> document \<Rightarrow> document \<times> nat" where
  "applyMerge groups targetHex doc =
     (let targetColor = hexToRgb targetHex in
      fold (\<lambda>grp. fold (\<lambda>member. fold (apply_ref targetColor) (nodes member)) (members grp))
        groups (doc, 0))"

section \<open>The merge message\<close>

record merge_msg =
  msg_threshold :: "real option"
  msg_groupIndices :: "int list"
  msg_targetHex :: string
  msg_styleName :: "string option"

datatype response = MergeDone nat bool "string option" | ErrorMessage string

text \<open>\<^verbatim>\<open>allGroups[i]\<close> is \<^verbatim>\<open>undefined\<close> when \<open>i\<close> is not a position of the array.\<close>

definition array_get :: "'v list \<Rightarrow> int \<Rightarrow> 'v option" where
  "array_get xs i = (if 0 \<le> i \<and> nat i < length xs then Some (xs ! nat i) else None)"

text \<open>\<^verbatim>\<open>msg.groupIndices.map((i) => allGroups[i]).filter(Boolean)\<close>\<close>

definition selectedGroups :: "color_group list \<Rightarrow> int list \<Rightarrow> color_group list" where
  "selectedGroups allGroups idxs =
     map the (filter (\<lambda>g. g \<noteq> None) (map (array_get allGroups) idxs))"

text \<open>\<^verbatim>\<open>figma.createPaintStyle()\<close> adds a style to the document; the handler fills it.\<close>

definition createPaintStyle :: "string \<Rightarrow> paint list \<Rightarrow> document \<Rightarrow> document" where
  "createPaintStyle name ps doc =
     doc\<lparr>doc_styles := doc_styles doc @ [\<lparr>style_name = name, style_paints = ps\<rparr>]\<rparr>"

text \<open>
  The fields of the message \<^verbatim>\<open>{type: "merge", threshold, groupIndices, targetHex, styleName}\<close>
  carry the prefix \<open>msg_\<close>, leaving the plain names to the variables of the source.
  The paint \<^verbatim>\<open>{ type: "SOLID", color: ... }\<close> of the new style:
\<close>

definition solid_paint :: "rgb \<Rightarrow> paint" where
  "solid_paint c =
     \<lparr>paint_type = ''SOLID'', visible = None, opacity = None, blendMode = None,
      paint_color = c\<rparr>"

text \<open>\<^verbatim>\<open>if (msg.styleName)\<close>: a missing name and the empty string are both falsy.\<close>

fun truthy :: "string option \<Rightarrow> bool" where
  "truthy None = False"
| "truthy (Some s) = (s \<noteq> [])"

text \<open>
  The branch \<^verbatim>\<open>msg.type === "merge"\<close> of the message handler. No operation of the
  model throws outside the \<^verbatim>\<open>try\<close> of \<open>applyMerge\<close>, so the handler's own
  \<^verbatim>\<open>catch\<close>, which would answer \<open>ErrorMessage\<close>, has no branch here.
\<close>

definition handle_merge :: "merge_msg \<Rightarrow> document \<Rightarrow> document \<times> response" where
  "handle_merge msg doc =
     (let colorMap = scanColors doc;
          threshold = (case msg_threshold msg of None \<Rightarrow> 20 | Some t \<Rightarrow> t);
          allGroups = groupSimilarColors colorMap threshold;
          (doc1, changed) = applyMerge (selectedGroups allGroups (msg_groupIndices msg))
                              (msg_targetHex msg) doc;
          (doc2, styleCreated) =
            (if truthy (msg_styleName msg)
             then (createPaintStyle (the (msg_styleName msg))
                     [solid_paint (hexToRgb (msg_targetHex msg))] doc1, True)
             else (doc1, False))
      in (doc2, MergeDone changed styleCreated (msg_styleName msg)))"

section \<open>Notions of the specification\<close>

text \<open>A well-formed colour key: exactly six hex digits.\<close>

definition six_hex_digits :: "string \<Rightarrow> bool" where
  "six_hex_digits s = (length s = 6 \<and> list_all is_hex_digit s)"

text \<open>
  A colour-entry map files every entry under its own hex key, and that key is the key of
  the entry's colour. Keys of a dictionary are pairwise different.
\<close>

definition color_entry_map :: "color_map \<Rightarrow> bool" where
  "color_entry_map colorMap =
     (distinct (map fst colorMap)
      \<and> list_all (\<lambda>p. hex (snd p) = fst p
                      \<and> hex (snd p) = toHex (red (color (snd p))) (green (color (snd p)))
                                        (blue (color (snd p)))) colorMap)"

text \<open>The paint list of one kind of a node, when the node has one and it is not mixed.\<close>

fun slot_list :: "node \<Rightarrow> slot_kind \<Rightarrow> paint list option" where
  "slot_list n Fill = (case fills n of Some (Paints ps) \<Rightarrow> Some ps | _ \<Rightarrow> None)"
| "slot_list n Stroke = (case strokes n of Some (Paints ps) \<Rightarrow> Some ps | _ \<Rightarrow> None)"

fun put_slot_list :: "slot_kind \<Rightarrow> paint list \<Rightarrow> node \<Rightarrow> node" where
  "put_slot_list Fill ps n = n\<lparr>fills := Some (Paints ps)\<rparr>"
| "put_slot_list Stroke ps n = n\<lparr>strokes := Some (Paints ps)\<rparr>"

text \<open>The paint a reference points at in a document, if any.\<close>

definition slot_of :: "document \<Rightarrow> paint_ref \<Rightarrow> paint option" where
  "slot_of doc ref =
     (case getNodeById (doc_nodes doc) (nodeId ref) of
        None \<Rightarrow> None
      | Some i \<Rightarrow>
          (case slot_list (doc_nodes doc ! i) (source ref) of
             None \<Rightarrow> None
           | Some ps \<Rightarrow> if index ref < length ps then Some (ps ! index ref) else None))"

text \<open>
  What happens to one reference of a merge: the three conditions under which it is
  skipped, or the rewrite.
\<close>

datatype ref_outcome = NodeGone | SlotChanged | NodeLocked | Rewritten

definition outcome :: "document \<Rightarrow> paint_ref \<Rightarrow> ref_outcome" where
  "outcome doc ref =
     (case getNodeById (doc_nodes doc) (nodeId ref) of
        None \<Rightarrow> NodeGone
      | Some i \<Rightarrow>
          (case slot_of doc ref of
             None \<Rightarrow> SlotChanged
           | Some p \<Rightarrow>
               if paint_type p = ''SOLID''
               then (if rejects_writes (doc_nodes doc ! i) then NodeLocked else Rewritten)
               else SlotChanged))"

text \<open>The document after the slot of a reference has been given the target colour.\<close>

definition rewrite_slot :: "rgb \<Rightarrow> paint_ref \<Rightarrow> document \<Rightarrow> document" where
  "rewrite_slot targetColor ref doc =
     (case getNodeById (doc_nodes doc) (nodeId ref) of
        None \<Rightarrow> doc
      | Some i \<Rightarrow>
          (case slot_list (doc_nodes doc ! i) (source ref) of
             None \<Rightarrow> doc
           | Some ps \<Rightarrow>
               doc\<lparr>doc_nodes := (doc_nodes doc)
                      [i := put_slot_list (source ref) (recolor ps (index ref) targetColor)
                              (doc_nodes doc ! i)]\<rparr>))"

text \<open>
  The merge as the specification words it: the references one by one, a failed one
  skipped, a rewritten one counted.
\<close>

fun best_effort_merge :: "rgb \<Rightarrow> paint_ref list \<Rightarrow> document \<Rightarrow> document \<times> nat" where
  "best_effort_merge targetColor [] doc = (doc, 0)"
| "best_effort_merge targetColor (ref # refs) doc =
     (if outcome doc ref = Rewritten
      then (let (doc', changed) = best_effort_merge targetColor refs (rewrite_slot targetColor ref doc)
            in (doc', Suc changed))
      else best_effort_merge targetColor refs doc)"

text \<open>The outcome of every reference, each in the document the earlier ones have left.\<close>

fun outcomes :: "rgb \<Rightarrow> paint_ref list \<Rightarrow> document \<Rightarrow> ref_outcome list" where
  "outcomes targetColor [] doc = []"
| "outcomes targetColor (ref # refs) doc =
     outcome doc ref #
     outcomes targetColor refs
       (if outcome doc ref = Rewritten then rewrite_slot targetColor ref doc else doc)"

text \<open>The references of a batch: cluster order, then member order, then reference order.\<close>

definition group_refs :: "color_group list \<Rightarrow> paint_ref list" where
  "group_refs groups = concat (map (\<lambda>grp. concat (map nodes (members grp))) groups)"

text \<open>The threshold a message asks for: \<^verbatim>\<open>msg.threshold ?? 20\<close>.\<close>

definition threshold_of :: "merge_msg \<Rightarrow> real" where
  "threshold_of msg = (case msg_threshold msg of None \<Rightarrow> 20 | Some t \<Rightarrow> t)"

text \<open>
  An executable form of the test \<^verbatim>\<open>colorDistance(a, b) <= threshold\<close>, free of the
  square root.
\<close>

definition distance_le :: "'x rgb_scheme \<Rightarrow> 'y rgb_scheme \<Rightarrow> real \<Rightarrow> bool" where
  "distance_le c d t =
     (let dr = (red c - red d) * 255;
          dg = (green c - green d) * 255;
          db = (blue c - blue d) * 255
      in 0 \<le> t \<and> dr * dr + dg * dg + db * db \<le> t * t)"

section \<open>Example documents\<close>

definition gradient_paint :: paint where
  "gradient_paint =
     \<lparr>paint_type = ''GRADIENT_LINEAR'', visible = None, opacity = None, blendMode = None,
      paint_color = \<lparr>red = 0, green = 0, blue = 0\<rparr>\<rparr>"

definition pure_red :: rgb where
  "pure_red = \<lparr>red = 1, green = 0, blue = 0\<rparr>"

definition near_red :: rgb where
  "near_red = \<lparr>red = 254 / 255, green = 1 / 255, blue = 1 / 255\<rparr>"

definition pure_green :: rgb where
  "pure_green = \<lparr>red = 0, green = 1, blue = 0\<rparr>"

text \<open>Two nodes, one filled \<^verbatim>\<open>#FF0000\<close> and one \<^verbatim>\<open>#FE0101\<close>.\<close>

definition two_reds :: document where
  "two_reds =
     \<lparr>doc_nodes =
        [\<lparr>node_id = ''1:1'', fills = Some (Paints [solid_paint pure_red]), strokes = None,
          rejects_writes = False\<rparr>,
         \<lparr>node_id = ''1:2'', fills = Some (Paints [solid_paint near_red]), strokes = None,
          rejects_writes = False\<rparr>],
      doc_styles = []\<rparr>"

text \<open>One node whose fills are a gradient and, above it, a solid red.\<close>

definition gradient_then_red :: document where
  "gradient_then_red =
     \<lparr>doc_nodes =
        [\<lparr>node_id = ''1:1'', fills = Some (Paints [gradient_paint, solid_paint pure_red]),
          strokes = None, rejects_writes = False\<rparr>],
      doc_styles = []\<rparr>"

text \<open>Three red nodes, the second one refusing writes.\<close>

definition locked_in_the_middle :: document where
  "locked_in_the_middle =
     \<lparr>doc_nodes =
        [\<lparr>node_id = ''1:1'', fills = Some (Paints [solid_paint pure_red]), strokes = None,
          rejects_writes = False\<rparr>,
         \<lparr>node_id = ''1:2'', fills = Some (Paints [solid_paint pure_red]), strokes = None,
          rejects_writes = True\<rparr>,
         \<lparr>node_id = ''1:3'', fills = Some (Paints [solid_paint pure_red]), strokes = None,
          rejects_writes = False\<rparr>],
      doc_styles = []\<rparr>"

definition pure_blue :: rgb where
  "pure_blue = \<lparr>red = 0, green = 0, blue = 1\<rparr>"

text \<open>A blue node, then a node with a green fill and a green stroke.\<close>

definition blue_then_two_greens :: document where
  "blue_then_two_greens =
     \<lparr>doc_nodes =
        [\<lparr>node_id = ''1:1'', fills = Some (Paints [solid_paint pure_blue]), strokes = None,
          rejects_writes = False\<rparr>,
         \<lparr>node_id = ''1:2'', fills = Some (Paints [solid_paint pure_green]),
          strokes = Some (Paints [solid_paint pure_green]), rejects_writes = False\<rparr>],
      doc_styles = []\<rparr>"

text \<open>A red node, then a node filled \<^verbatim>\<open>#123456\<close>.\<close>

definition ink_123456 :: rgb where
  "ink_123456 = \<lparr>red = 18 / 255, green = 52 / 255, blue = 86 / 255\<rparr>"

definition red_then_123456 :: document where
  "red_then_123456 =
     \<lparr>doc_nodes =
        [\<lparr>node_id = ''1:1'', fills = Some (Paints [solid_paint pure_red]), strokes = None,
          rejects_writes = False\<rparr>,
         \<lparr>node_id = ''1:2'', fills = Some (Paints [solid_paint ink_123456]), strokes = None,
          rejects_writes = False\<rparr>],
      doc_styles = []\<rparr>"

text \<open>
  A batch of five references into the document \<open>locked_in_the_middle\<close>: its three
  nodes, a node that does not exist, and a slot that does not exist.
\<close>

definition five_refs :: "paint_ref list" where
  "five_refs =
     [\<lparr>nodeId = ''1:1'', source = Fill, index = 0\<rparr>,
      \<lparr>nodeId = ''1:2'', source = Fill, index = 0\<rparr>,
      \<lparr>nodeId = ''1:3'', source = Fill, index = 0\<rparr>,
      \<lparr>nodeId = ''9:9'', source = Fill, index = 0\<rparr>,
      \<lparr>nodeId = ''1:1'', source = Fill, index = 7\<rparr>]"

definition five_ref_batch :: "color_group list" where
  "five_ref_batch =
     [\<lparr>representative =
         \<lparr>color = \<lparr>red = 1, green = 0, blue = 0, alpha = 1\<rparr>, hex = ''FF0000'',
          nodes = five_refs\<rparr>,
       members =
         [\<lparr>color = \<lparr>red = 1, green = 0, blue = 0, alpha = 1\<rparr>, hex = ''FF0000'',
           nodes = five_refs\<rparr>]\<rparr>]"

section \<open>The similarity test without the square root\<close>

lemma colorDistance_le_iff: "colorDistance c d \<le> t \<longleftrightarrow> distance_le c d t"
proof -
  define s where "s = ((red c - red d) * 255) * ((red c - red d) * 255)
     + ((green c - green d) * 255) * ((green c - green d) * 255)
     + ((blue c - blue d) * 255) * ((blue c - blue d) * 255)"
  have s0: "0 \<le> s" unfolding s_def by simp
  have "sqrt s \<le> t \<longleftrightarrow> 0 \<le> t \<and> s \<le> t * t"
  proof (cases "0 \<le> t")
    case True
    then have "sqrt s \<le> t \<longleftrightarrow> sqrt s \<le> sqrt (t * t)" by simp
    also have "\<dots> \<longleftrightarrow> s \<le> t * t" by (rule real_sqrt_le_iff)
    finally show ?thesis using True by simp
  next
    case False
    then have "t < sqrt s" using s0 by (meson not_le order.strict_trans2 real_sqrt_ge_zero)
    then show ?thesis using False by simp
  qed
  then show ?thesis by (simp add: colorDistance_def distance_le_def s_def Let_def)
qed

lemma inner_loop_code [code]:
  "inner_loop rep threshold [] assigned = ([], assigned)"
  "inner_loop rep threshold (e # es) assigned =
     (if hex e \<in> assigned then inner_loop rep threshold es assigned
      else if distance_le (color rep) (color e) threshold then
        (let (ms, assigned') = inner_loop rep threshold es (insert (hex e) assigned)
         in (e # ms, assigned'))
      else inner_loop rep threshold es assigned)"
  by (simp_all add: colorDistance_le_iff)

section \<open>The colour codec\<close>

subsection \<open>The bytes of a 32-bit integer\<close>

lemma mask8: "(255 :: 32 word) = mask 8"
  by (simp add: mask_eq_exp_minus_1)

lemma byte_of_word:
  assumes "k \<le> 24"
  shows "unat (signed_drop_bit k (w :: 32 word) AND 255) = (unat w div 2 ^ k) mod 256"
proof -
  have "signed_drop_bit k w AND 255 = take_bit 8 (drop_bit k w)"
    unfolding mask8 using assms
    by (intro bit_word_eqI) (auto simp: bit_simps)
  then have "unat (signed_drop_bit k w AND 255) = take_bit 8 (drop_bit k (unat w))"
    by (simp add: unsigned_take_bit_eq unat_drop_bit_eq)
  then show ?thesis
    by (simp add: take_bit_eq_mod drop_bit_eq_div)
qed

lemma low_byte_of_word: "unat ((w :: 32 word) AND 255) = unat w mod 256"
  using byte_of_word [of 0 w] by simp

lemma hexToRgb_bytes:
  "hexToRgb s =
     (let n = unat (ToInt32 (parseInt16 (replace_hash s))) in
      \<lparr>red = real ((n div 65536) mod 256) / 255,
       green = real ((n div 256) mod 256) / 255,
       blue = real (n mod 256) / 255\<rparr>)"
  using byte_of_word [of 16] byte_of_word [of 8]
  by (simp add: hexToRgb_def Let_def low_byte_of_word)

subsection \<open>Decoding six hex digits\<close>

lemma hex_char_facts:
  assumes "digit_value c = Some d"
  shows "d < 16" "\<not> is_white_space c" "c \<noteq> CHR ''#''" "c \<noteq> CHR ''+''" "c \<noteq> CHR ''-''"
    "c \<noteq> CHR ''x''" "c \<noteq> CHR ''X''" "is_hex_digit c"
  using assms
  by (auto simp: digit_value_def is_white_space_def is_hex_digit_def split: if_splits)

lemma parse_six:
  assumes "digit_value c1 = Some d1" "digit_value c2 = Some d2" "digit_value c3 = Some d3"
    "digit_value c4 = Some d4" "digit_value c5 = Some d5" "digit_value c6 = Some d6"
  shows "parseInt16 (replace_hash [c1, c2, c3, c4, c5, c6]) =
           Num (int ((d1 * 16 + d2) * 65536 + (d3 * 16 + d4) * 256 + (d5 * 16 + d6)))"
proof -
  note f1 = hex_char_facts [OF assms(1)] and f2 = hex_char_facts [OF assms(2)]
    and f3 = hex_char_facts [OF assms(3)] and f4 = hex_char_facts [OF assms(4)]
    and f5 = hex_char_facts [OF assms(5)] and f6 = hex_char_facts [OF assms(6)]
  have r: "replace_hash [c1, c2, c3, c4, c5, c6] = [c1, c2, c3, c4, c5, c6]"
    using f1 f2 f3 f4 f5 f6 by (simp add: replace_hash_def)
  have v: "hex_value [c1, c2, c3, c4, c5, c6] =
             (d1 * 16 + d2) * 65536 + (d3 * 16 + d4) * 256 + (d5 * 16 + d6)"
    using assms by (simp add: hex_value_def)
  have b: "(d1 * 16 + d2) * 65536 + (d3 * 16 + d4) * 256 + (d5 * 16 + d6) < 2 ^ 53"
    using f1(1) f2(1) f3(1) f4(1) f5(1) f6(1) by simp
  show ?thesis
    unfolding r parseInt16_def
    using f1 f2 f3 f4 f5 f6 b by (simp add: v to_double_def)
qed

lemma three_bytes:
  fixes hi mid lo :: nat
  assumes "mid < 256" "lo < 256"
  shows "(hi * 65536 + mid * 256 + lo) div 65536 = hi"
    and "((hi * 65536 + mid * 256 + lo) div 256) mod 256 = mid"
    and "(hi * 65536 + mid * 256 + lo) mod 256 = lo"
proof -
  have e: "hi * 65536 + mid * 256 + lo = (hi * 256 + mid) * 256 + lo"
    by simp
  show "(hi * 65536 + mid * 256 + lo) div 65536 = hi"
    using assms by simp
  have d: "((hi * 256 + mid) * 256 + lo) div 256 = hi * 256 + mid"
    using assms(2) by simp
  have m: "(hi * 256 + mid) mod 256 = mid"
    using assms(1) by simp
  show "((hi * 65536 + mid * 256 + lo) div 256) mod 256 = mid"
    by (simp only: e d m)
  have "((hi * 256 + mid) * 256 + lo) mod 256 = lo"
    using assms(2) by (simp only: mod_mult_self3 mod_less)
  then show "(hi * 65536 + mid * 256 + lo) mod 256 = lo"
    by (simp only: e)
qed

lemma hexToRgb_six:
  assumes "digit_value c1 = Some d1" "digit_value c2 = Some d2" "digit_value c3 = Some d3"
    "digit_value c4 = Some d4" "digit_value c5 = Some d5" "digit_value c6 = Some d6"
  shows "hexToRgb [c1, c2, c3, c4, c5, c6] =
           \<lparr>red = real (d1 * 16 + d2) / 255, green = real (d3 * 16 + d4) / 255,
            blue = real (d5 * 16 + d6) / 255\<rparr>"
proof -
  let ?hi = "d1 * 16 + d2" and ?mid = "d3 * 16 + d4" and ?lo = "d5 * 16 + d6"
  let ?N = "?hi * 65536 + ?mid * 256 + ?lo"
  have d: "d1 < 16" "d2 < 16" "d3 < 16" "d4 < 16" "d5 < 16" "d6 < 16"
    using assms by (auto dest: hex_char_facts(1))
  then have bounds: "?hi < 256" "?mid < 256" "?lo < 256"
    by simp_all
  then have "?N < 2 ^ 32"
    by simp
  then have u: "unat (ToInt32 (Num (int ?N))) = ?N"
    by (simp add: unat_of_nat del: of_nat_add of_nat_mult)
  have "(?N div 65536) mod 256 = ?hi"
    using three_bytes(1) [OF bounds(2,3), of ?hi] bounds(1) by simp
  moreover have "(?N div 256) mod 256 = ?mid"
    by (rule three_bytes(2) [OF bounds(2,3)])
  moreover have "?N mod 256 = ?lo"
    by (rule three_bytes(3) [OF bounds(2,3)])
  ultimately show ?thesis
    unfolding hexToRgb_bytes parse_six [OF assms] u Let_def by simp
qed

subsection \<open>Encoding a byte\<close>

lemma less_16_cases:
  "(d :: nat) < 16 \<Longrightarrow>
     d = 0 \<or> d = 1 \<or> d = 2 \<or> d = 3 \<or> d = 4 \<or> d = 5 \<or> d = 6 \<or> d = 7 \<or> d = 8 \<or> d = 9
     \<or> d = 10 \<or> d = 11 \<or> d = 12 \<or> d = 13 \<or> d = 14 \<or> d = 15"
  by arith

lemma upper_hex_digit:
  assumes "d < 16"
  shows "upper_char (hex_digit d) = ''0123456789ABCDEF'' ! d"
    and "digit_value (''0123456789ABCDEF'' ! d) = Some d"
  using less_16_cases [OF assms]
  by (elim disjE; simp add: upper_char_def hex_digit_def digit_value_def)+

lemma toHex_byte:
  assumes "k < 256"
  shows "toUpperCase (padStart2 (toString16 (int k))) =
           [''0123456789ABCDEF'' ! (k div 16), ''0123456789ABCDEF'' ! (k mod 16)]"
proof (cases "k < 16")
  case True
  then have "nat_to_hex k = [hex_digit k]"
    by (simp add: nat_to_hex.simps)
  then show ?thesis
    using True upper_hex_digit(1) [of k] upper_hex_digit(1) [of 0]
    by (simp add: toString16_def padStart2_def toUpperCase_def hex_digit_def upper_char_def)
next
  case False
  with assms have q: "k div 16 < 16" "\<not> k < 16" "k mod 16 < 16"
    by simp_all
  have "nat_to_hex k = [hex_digit (k div 16), hex_digit (k mod 16)]"
    using q by (simp add: nat_to_hex.simps [of k] nat_to_hex.simps [of "k div 16"])
  then show ?thesis
    using upper_hex_digit(1) [OF q(1)] upper_hex_digit(1) [OF q(3)]
    by (simp add: toString16_def padStart2_def toUpperCase_def)
qed

subsection \<open>Encoding, then decoding\<close>

lemma Math_round_byte:
  assumes "0 \<le> v" "v \<le> 1"
  shows "0 \<le> Math_round (v * 255)" "Math_round (v * 255) \<le> 255"
    "\<bar>real_of_int (Math_round (v * 255)) / 255 - v\<bar> \<le> 1 / 510"
proof -
  let ?k = "Math_round (v * 255)"
  have lo: "v * 255 + 1 / 2 - 1 < real_of_int ?k" and hi: "real_of_int ?k \<le> v * 255 + 1 / 2"
    unfolding Math_round_def by linarith+
  show "0 \<le> ?k" using lo assms(1) by linarith
  have "real_of_int ?k < 256" using hi assms(2) by linarith
  then show "?k \<le> 255" by linarith
  have "\<bar>real_of_int ?k - v * 255\<bar> \<le> 1 / 2" using lo hi by linarith
  then show "\<bar>real_of_int ?k / 255 - v\<bar> \<le> 1 / 510" by (simp add: field_simps abs_le_iff)
qed

lemma toHex_channel:
  assumes "0 \<le> v" "v \<le> 1"
  defines "k \<equiv> nat (Math_round (v * 255))"
  shows "toUpperCase (padStart2 (toString16 (Math_round (v * 255)))) =
           [''0123456789ABCDEF'' ! (k div 16), ''0123456789ABCDEF'' ! (k mod 16)]"
proof -
  have "k < 256" and "Math_round (v * 255) = int k"
    using Math_round_byte(1,2) [OF assms(1,2)] by (simp_all add: k_def)
  then show ?thesis
    using toHex_byte [of k] by simp
qed

lemma hexToRgb_toHex:
  assumes "0 \<le> rv" "rv \<le> 1" "0 \<le> gv" "gv \<le> 1" "0 \<le> bv" "bv \<le> 1"
  shows "hexToRgb (toHex rv gv bv) =
           \<lparr>red = real_of_int (Math_round (rv * 255)) / 255,
            green = real_of_int (Math_round (gv * 255)) / 255,
            blue = real_of_int (Math_round (bv * 255)) / 255\<rparr>"
proof -
  define kr kg kb where "kr = nat (Math_round (rv * 255))" and "kg = nat (Math_round (gv * 255))"
    and "kb = nat (Math_round (bv * 255))"
  have k: "kr < 256" "kg < 256" "kb < 256"
    and i: "Math_round (rv * 255) = int kr" "Math_round (gv * 255) = int kg"
      "Math_round (bv * 255) = int kb"
    using Math_round_byte(1,2) [OF assms(1,2)] Math_round_byte(1,2) [OF assms(3,4)]
      Math_round_byte(1,2) [OF assms(5,6)]
    by (simp_all add: kr_def kg_def kb_def)
  have enc: "toHex rv gv bv =
      [''0123456789ABCDEF'' ! (kr div 16), ''0123456789ABCDEF'' ! (kr mod 16),
       ''0123456789ABCDEF'' ! (kg div 16), ''0123456789ABCDEF'' ! (kg mod 16),
       ''0123456789ABCDEF'' ! (kb div 16), ''0123456789ABCDEF'' ! (kb mod 16)]"
    using toHex_channel [OF assms(1,2)] toHex_channel [OF assms(3,4)]
      toHex_channel [OF assms(5,6)]
    by (simp add: toHex_def toUpperCase_def kr_def kg_def kb_def)
  have q: "kr div 16 < 16" "kr mod 16 < 16" "kg div 16 < 16" "kg mod 16 < 16"
    "kb div 16 < 16" "kb mod 16 < 16"
    using k by simp_all
  show ?thesis
    unfolding enc
    by (subst hexToRgb_six [OF upper_hex_digit(2) [OF q(1)] upper_hex_digit(2) [OF q(2)]
          upper_hex_digit(2) [OF q(3)] upper_hex_digit(2) [OF q(4)]
          upper_hex_digit(2) [OF q(5)] upper_hex_digit(2) [OF q(6)]])
      (simp add: i)
qed

text \<open>
  The bound of the round trip leaves room for the rounding of the two floating-point
  operations: it still holds when the product \<^verbatim>\<open>v * 255\<close> is off by up to a quarter
  and the quotient by up to \<open>1 / 1020\<close>.
\<close>

lemma round_trip_tolerates_rounding:
  fixes v x y :: real
  assumes "\<bar>x - v * 255\<bar> \<le> 1 / 4" and "\<bar>y - real_of_int (Math_round x) / 255\<bar> \<le> 1 / 1020"
  shows "\<bar>y - v\<bar> \<le> 1 / 255"
proof -
  have "x + 1 / 2 - 1 < real_of_int (Math_round x)" "real_of_int (Math_round x) \<le> x + 1 / 2"
    unfolding Math_round_def by linarith+
  then have "\<bar>real_of_int (Math_round x) - v * 255\<bar> \<le> 3 / 4"
    using assms(1) by linarith
  then have "\<bar>real_of_int (Math_round x) / 255 - v\<bar> \<le> 1 / 340"
    by (simp add: field_simps abs_le_iff)
  with assms(2) show ?thesis
    by linarith
qed

text \<open>
  Claim C10. For every colour whose three channels lie between 0 and 1, each channel of
  \<open>hexToRgb (toHex c)\<close> differs from that channel of \<open>c\<close> by at most \<open>1 / 255\<close>.
  (In exact arithmetic the difference is at most \<open>1 / 510\<close>, by \<open>Math_round_byte\<close>.)
\<close>

theorem decode_encode_within_quantum:
  assumes "0 \<le> red c" "red c \<le> 1" "0 \<le> green c" "green c \<le> 1" "0 \<le> blue c" "blue c \<le> 1"
  shows "\<bar>red (hexToRgb (toHex (red c) (green c) (blue c))) - red c\<bar> \<le> 1 / 255
       \<and> \<bar>green (hexToRgb (toHex (red c) (green c) (blue c))) - green c\<bar> \<le> 1 / 255
       \<and> \<bar>blue (hexToRgb (toHex (red c) (green c) (blue c))) - blue c\<bar> \<le> 1 / 255"
  using Math_round_byte(3) [OF assms(1,2)] Math_round_byte(3) [OF assms(3,4)]
    Math_round_byte(3) [OF assms(5,6)]
  by (simp add: hexToRgb_toHex [OF assms])

theorem decode_encode_within_quantum_witness:
  "\<bar>red (hexToRgb (toHex (1 / 2) (1 / 3) 1)) - 1 / 2\<bar> \<le> 1 / 255
   \<and> \<bar>green (hexToRgb (toHex (1 / 2) (1 / 3) 1)) - 1 / 3\<bar> \<le> 1 / 255
   \<and> \<bar>blue (hexToRgb (toHex (1 / 2) (1 / 3) 1)) - 1\<bar> \<le> 1 / 255"
  using decode_encode_within_quantum [of "\<lparr>red = 1 / 2, green = 1 / 3, blue = 1\<rparr>"]
  by simp

section \<open>The examples, evaluated\<close>

lemmas codec_eval = toHex_def toUpperCase_def upper_char_def padStart2_def toString16_def
  Math_round_def nat_to_hex.simps hex_digit_def hexToRgb_def replace_hash_def parseInt16_def
  is_white_space_def is_hex_digit_def digit_value_def hex_value_def to_double_def

lemma toHex_pure_red: "toHex 1 0 0 = ''FF0000''"
  by (simp add: codec_eval)

lemma toHex_near_red: "toHex (254 / 255) (1 / 255) (1 / 255) = ''FE0101''"
  by (simp add: codec_eval)

lemma not_array_index_reds: "\<not> is_array_index ''FF0000''" "\<not> is_array_index ''FE0101''"
  by (simp_all add: is_array_index_def is_dec_digit_def)

lemma scanColors_two_reds:
  "scanColors two_reds =
     [(''FF0000'',
       \<lparr>color = \<lparr>red = 1, green = 0, blue = 0, alpha = 1\<rparr>, hex = ''FF0000'',
        nodes = [\<lparr>nodeId = ''1:1'', source = Fill, index = 0\<rparr>]\<rparr>),
      (''FE0101'',
       \<lparr>color = \<lparr>red = 254 / 255, green = 1 / 255, blue = 1 / 255, alpha = 1\<rparr>,
        hex = ''FE0101'',
        nodes = [\<lparr>nodeId = ''1:2'', source = Fill, index = 0\<rparr>]\<rparr>)]"
  by (simp add: two_reds_def pure_red_def near_red_def scanColors_def scan_node_def
      add_paints_def add_ref_def solid_paint_def enumerate_eq_zip toHex_pure_red toHex_near_red
      Let_def)

lemmas group_eval = groupSimilarColors_def discovered_groups_def Object_values_def
  Array_sort_def by_usage_desc_def totalCount_def colorDistance_le_iff distance_le_def Let_def

lemma groups_two_reds_20:
  "groupSimilarColors (scanColors two_reds) 20 =
     [\<lparr>representative =
         \<lparr>color = \<lparr>red = 1, green = 0, blue = 0, alpha = 1\<rparr>, hex = ''FF0000'',
          nodes = [\<lparr>nodeId = ''1:1'', source = Fill, index = 0\<rparr>]\<rparr>,
       members =
         [\<lparr>color = \<lparr>red = 1, green = 0, blue = 0, alpha = 1\<rparr>, hex = ''FF0000'',
           nodes = [\<lparr>nodeId = ''1:1'', source = Fill, index = 0\<rparr>]\<rparr>,
          \<lparr>color = \<lparr>red = 254 / 255, green = 1 / 255, blue = 1 / 255, alpha = 1\<rparr>,
           hex = ''FE0101'',
           nodes = [\<lparr>nodeId = ''1:2'', source = Fill, index = 0\<rparr>]\<rparr>]\<rparr>]"
  by (simp add: scanColors_two_reds group_eval not_array_index_reds)

lemma handle_merge_eq:
  "handle_merge msg doc =
     (let r = applyMerge
                (selectedGroups (groupSimilarColors (scanColors doc) (threshold_of msg))
                   (msg_groupIndices msg))
                (msg_targetHex msg) doc
      in (if truthy (msg_styleName msg)
          then createPaintStyle (the (msg_styleName msg))
                 [solid_paint (hexToRgb (msg_targetHex msg))] (fst r)
          else fst r,
          MergeDone (snd r) (truthy (msg_styleName msg)) (msg_styleName msg)))"
  by (simp add: handle_merge_def threshold_of_def Let_def split: prod.split)

lemma hexToRgb_12345:
  "hexToRgb ''12345'' = \<lparr>red = 1 / 255, green = 35 / 255, blue = 69 / 255\<rparr>"
  by (simp add: codec_eval)

lemma merge_two_reds_12345:
  "handle_merge
     \<lparr>msg_threshold = None, msg_groupIndices = [0], msg_targetHex = ''12345'',
      msg_styleName = None\<rparr> two_reds =
   (\<lparr>doc_nodes =
        [\<lparr>node_id = ''1:1'',
          fills = Some (Paints [solid_paint \<lparr>red = 1 / 255, green = 35 / 255, blue = 69 / 255\<rparr>]),
          strokes = None, rejects_writes = False\<rparr>,
         \<lparr>node_id = ''1:2'',
          fills = Some (Paints [solid_paint \<lparr>red = 1 / 255, green = 35 / 255, blue = 69 / 255\<rparr>]),
          strokes = None, rejects_writes = False\<rparr>],
      doc_styles = []\<rparr>,
    MergeDone 2 False None)"
  unfolding handle_merge_eq
  by (simp add: threshold_of_def groups_two_reds_20 selectedGroups_def array_get_def
      hexToRgb_12345 applyMerge_def)
    (simp add: two_reds_def solid_paint_def pure_red_def near_red_def apply_ref_def
      try_block_def set_fills_def recolor_def Let_def)

section \<open>Malformed colour keys\<close>

lemma hexToRgb_channels:
  "\<exists>kr kg kb. kr < 256 \<and> kg < 256 \<and> kb < 256
     \<and> hexToRgb s = \<lparr>red = real kr / 255, green = real kg / 255, blue = real kb / 255\<rparr>"
proof -
  define n where "n = unat (ToInt32 (parseInt16 (replace_hash s)))"
  have "hexToRgb s =
      \<lparr>red = real ((n div 65536) mod 256) / 255, green = real ((n div 256) mod 256) / 255,
       blue = real (n mod 256) / 255\<rparr>"
    by (simp add: hexToRgb_bytes n_def Let_def)
  moreover have "(n div 65536) mod 256 < 256" "(n div 256) mod 256 < 256" "n mod 256 < 256"
    by simp_all
  ultimately show ?thesis
    by blast
qed

lemma hexToRgb_NaN:
  "parseInt16 (replace_hash s) = NaN \<Longrightarrow> hexToRgb s = \<lparr>red = 0, green = 0, blue = 0\<rparr>"
  by (simp add: hexToRgb_bytes)

text \<open>
  Claim C2, as amended. \<open>hexToRgb\<close> never fails: on every string, also one that is not
  exactly six hex digits, it returns a colour whose channels are bytes divided by 255,
  black when \<^verbatim>\<open>parseInt\<close> finds no hex digit; and a merge with that string as target
  is answered \<^verbatim>\<open>merge-done\<close>, not by an error.
\<close>

theorem hexToRgb_never_fails:
  "(\<exists>kr kg kb. kr < 256 \<and> kg < 256 \<and> kb < 256
      \<and> hexToRgb s = \<lparr>red = real kr / 255, green = real kg / 255, blue = real kb / 255\<rparr>)
   \<and> (parseInt16 (replace_hash s) = NaN \<longrightarrow> hexToRgb s = \<lparr>red = 0, green = 0, blue = 0\<rparr>)
   \<and> (\<exists>changed. snd (handle_merge (msg\<lparr>msg_targetHex := s\<rparr>) doc) =
          MergeDone changed (truthy (msg_styleName msg)) (msg_styleName msg))"
  using hexToRgb_channels [of s] hexToRgb_NaN [of s]
  by (simp add: handle_merge_eq Let_def)

theorem hexToRgb_never_fails_witness:
  "\<not> six_hex_digits ''GGGGGG'' \<and> parseInt16 (replace_hash ''GGGGGG'') = NaN
   \<and> hexToRgb ''GGGGGG'' = \<lparr>red = 0, green = 0, blue = 0\<rparr>"
proof -
  have n: "parseInt16 (replace_hash ''GGGGGG'') = NaN"
    by (simp add: replace_hash_def parseInt16_def is_white_space_def is_hex_digit_def
        digit_value_def)
  have "\<not> six_hex_digits ''GGGGGG''"
    by (simp add: six_hex_digits_def is_hex_digit_def digit_value_def)
  then show ?thesis
    using n hexToRgb_never_fails [of "''GGGGGG''"] by simp
qed

theorem hexToRgb_malformed_counterexample:
  "\<not> six_hex_digits ''12345''
   \<and> hexToRgb ''12345'' = \<lparr>red = 1 / 255, green = 35 / 255, blue = 69 / 255\<rparr>
   \<and> snd (handle_merge
            \<lparr>msg_threshold = None, msg_groupIndices = [0], msg_targetHex = ''12345'',
             msg_styleName = None\<rparr> two_reds) = MergeDone 2 False None"
  by (simp add: six_hex_digits_def hexToRgb_12345 merge_two_reds_12345)

section \<open>Group indices out of range\<close>

lemma selectedGroups_filter:
  "selectedGroups allGroups idxs =
     map (\<lambda>i. allGroups ! nat i) (filter (\<lambda>i. 0 \<le> i \<and> i < int (length allGroups)) idxs)"
  by (induction idxs) (auto simp: selectedGroups_def array_get_def)

lemma selectedGroups_idem:
  "selectedGroups allGroups (filter (\<lambda>i. 0 \<le> i \<and> i < int (length allGroups)) idxs) =
     selectedGroups allGroups idxs"
  by (simp add: selectedGroups_filter)

lemma applyMerge_Nil: "applyMerge [] h doc = (doc, 0)"
  by (simp add: applyMerge_def)

text \<open>
  Claim C7. A group index that is not a position of the rebuilt cluster sequence is
  dropped: the selected groups are those at the indices in range, in the order given, and
  the merge answers as it would without the other indices. In particular, with one
  cluster, indices \<open>[5]\<close> and no style name the answer is \<^verbatim>\<open>merge-done\<close> with
  \<open>changed = 0\<close> and \<open>styleCreated = false\<close>, and the document is untouched.
\<close>

theorem out_of_range_indices_dropped:
  "selectedGroups allGroups idxs =
     map (\<lambda>i. allGroups ! nat i) (filter (\<lambda>i. 0 \<le> i \<and> i < int (length allGroups)) idxs)
   \<and> handle_merge msg doc =
       handle_merge
         (msg\<lparr>msg_groupIndices :=
                filter (\<lambda>i. 0 \<le> i
                          \<and> i < int (length (groupSimilarColors (scanColors doc) (threshold_of msg))))
                  (msg_groupIndices msg)\<rparr>) doc
   \<and> (length (groupSimilarColors (scanColors doc) (threshold_of msg)) = 1
        \<and> msg_groupIndices msg = [5] \<and> msg_styleName msg = None
        \<longrightarrow> handle_merge msg doc = (doc, MergeDone 0 False None))"
proof (intro conjI impI)
  show "selectedGroups allGroups idxs =
     map (\<lambda>i. allGroups ! nat i) (filter (\<lambda>i. 0 \<le> i \<and> i < int (length allGroups)) idxs)"
    by (rule selectedGroups_filter)
  show "handle_merge msg doc =
       handle_merge
         (msg\<lparr>msg_groupIndices :=
                filter (\<lambda>i. 0 \<le> i
                          \<and> i < int (length (groupSimilarColors (scanColors doc) (threshold_of msg))))
                  (msg_groupIndices msg)\<rparr>) doc"
proof -
    have t: "threshold_of (msg\<lparr>msg_groupIndices := js\<rparr>) = threshold_of msg" for js
      by (simp add: threshold_of_def)
    show ?thesis
      by (simp add: handle_merge_eq selectedGroups_idem Let_def t)
  qed
  assume "length (groupSimilarColors (scanColors doc) (threshold_of msg)) = 1
        \<and> msg_groupIndices msg = [5] \<and> msg_styleName msg = None"
  then show "handle_merge msg doc = (doc, MergeDone 0 False None)"
    by (simp add: handle_merge_eq selectedGroups_filter applyMerge_Nil)
qed

theorem out_of_range_indices_dropped_witness:
  "length (groupSimilarColors (scanColors two_reds) 20) = 1
   \<and> handle_merge
        \<lparr>msg_threshold = None, msg_groupIndices = [5], msg_targetHex = ''#00FF00'',
         msg_styleName = None\<rparr> two_reds = (two_reds, MergeDone 0 False None)"
proof -
  let ?msg = "\<lparr>msg_threshold = None, msg_groupIndices = [5], msg_targetHex = ''#00FF00'',
               msg_styleName = None\<rparr>"
  have one: "length (groupSimilarColors (scanColors two_reds) 20) = 1"
    by (simp add: groups_two_reds_20)
  then have "length (groupSimilarColors (scanColors two_reds) (threshold_of ?msg)) = 1
      \<and> msg_groupIndices ?msg = [5] \<and> msg_styleName ?msg = None"
    by (simp add: threshold_of_def)
  with out_of_range_indices_dropped [of "[]" "[]" ?msg two_reds]
  have "handle_merge ?msg two_reds = (two_reds, MergeDone 0 False None)"
    by blast
  with one show ?thesis
    by blast
qed

section \<open>The merge as a best-effort batch\<close>

subsection \<open>One reference\<close>

lemma getNodeById_Some:
  "getNodeById ns nid = Some i \<Longrightarrow> i < length ns \<and> node_id (ns ! i) = nid"
  by (induction ns arbitrary: i) (auto split: if_splits)

lemma apply_ref_outcome:
  "apply_ref t ref (doc, n) =
     (if outcome doc ref = Rewritten then (rewrite_slot t ref doc, Suc n) else (doc, n))"
proof (cases "getNodeById (doc_nodes doc) (nodeId ref)")
  case None
  then show ?thesis
    by (simp add: apply_ref_def outcome_def)
next
  case (Some i)
  show ?thesis
  proof (cases "source ref")
    case Fill
    with Some show ?thesis
      by (auto simp: apply_ref_def outcome_def slot_of_def rewrite_slot_def try_block_def
          set_fills_def Let_def split: option.splits paints.splits)
  next
    case Stroke
    with Some show ?thesis
      by (auto simp: apply_ref_def outcome_def slot_of_def rewrite_slot_def try_block_def
          set_strokes_def Let_def split: option.splits paints.splits)
  qed
qed

subsection \<open>The batch\<close>

lemma fold_member_refs:
  "fold (\<lambda>member. fold f (nodes member)) ms s = fold f (concat (map nodes ms)) s"
  by (induction ms arbitrary: s) simp_all

lemma fold_group_refs:
  "fold (\<lambda>grp. fold (\<lambda>member. fold f (nodes member)) (members grp)) gs s =
     fold f (group_refs gs) s"
  by (induction gs arbitrary: s) (simp_all add: group_refs_def fold_member_refs)

lemma applyMerge_fold_refs:
  "applyMerge groups h doc = fold (apply_ref (hexToRgb h)) (group_refs groups) (doc, 0)"
  by (simp add: applyMerge_def fold_group_refs Let_def)

lemma fold_apply_ref:
  "fold (apply_ref t) refs (doc, n) =
     (fst (best_effort_merge t refs doc), n + snd (best_effort_merge t refs doc))"
proof (induction refs arbitrary: doc n)
  case Nil
  then show ?case by simp
next
  case (Cons ref refs)
  then show ?case
    by (simp add: apply_ref_outcome split_beta)
qed

lemma best_effort_merge_count:
  "snd (best_effort_merge t refs doc) = count_list (outcomes t refs doc) Rewritten"
  by (induction refs arbitrary: doc) (simp_all add: split_beta)

lemma length_outcomes: "length (outcomes t refs doc) = length refs"
  by (induction refs arbitrary: doc) simp_all

text \<open>
  Claim C3. The merge is the best-effort batch of the specification: the references are
  taken one by one in cluster, member and reference order; one whose node is gone, whose
  slot is no longer a solid paint or whose write the host refuses leaves the document and
  the counter as they are, and the batch goes on with the next one; every reference gets
  an outcome, and the counter returned is the number of references rewritten (a
  reference that stands twice in the batch, as under a group index given twice, is
  rewritten and counted twice).
\<close>

theorem applyMerge_best_effort:
  "applyMerge groups h doc = best_effort_merge (hexToRgb h) (group_refs groups) doc
   \<and> length (outcomes (hexToRgb h) (group_refs groups) doc) = length (group_refs groups)
   \<and> snd (applyMerge groups h doc) =
       count_list (outcomes (hexToRgb h) (group_refs groups) doc) Rewritten"
  by (simp add: applyMerge_fold_refs fold_apply_ref best_effort_merge_count length_outcomes
      prod_eq_iff)

lemma hexToRgb_green: "hexToRgb ''#00FF00'' = pure_green"
  by (simp add: codec_eval pure_green_def)

lemma outcomes_five_refs:
  "outcomes pure_green five_refs locked_in_the_middle =
     [Rewritten, NodeLocked, Rewritten, NodeGone, SlotChanged]"
  by (simp add: five_refs_def locked_in_the_middle_def outcome_def slot_of_def rewrite_slot_def
      recolor_def solid_paint_def)

theorem applyMerge_best_effort_witness:
  "outcomes (hexToRgb ''#00FF00'') (group_refs five_ref_batch) locked_in_the_middle =
     [Rewritten, NodeLocked, Rewritten, NodeGone, SlotChanged]
   \<and> snd (applyMerge five_ref_batch ''#00FF00'' locked_in_the_middle) = 2"
proof -
  have r: "group_refs five_ref_batch = five_refs"
    by (simp add: group_refs_def five_ref_batch_def)
  have "snd (applyMerge five_ref_batch ''#00FF00'' locked_in_the_middle) =
      count_list (outcomes (hexToRgb ''#00FF00'') (group_refs five_ref_batch)
        locked_in_the_middle) Rewritten"
    using applyMerge_best_effort [of five_ref_batch "''#00FF00''" locked_in_the_middle]
    by blast
  then show ?thesis
    by (simp add: r hexToRgb_green outcomes_five_refs)
qed

subsection \<open>What a rewrite changes\<close>

lemma slot_list_put_slot_list [simp]: "slot_list (put_slot_list k ps n) k = Some ps"
  by (cases k) simp_all

lemma outcome_Rewritten:
  assumes "outcome doc ref = Rewritten"
  obtains i ps where "getNodeById (doc_nodes doc) (nodeId ref) = Some i"
    and "i < length (doc_nodes doc)"
    and "slot_list (doc_nodes doc ! i) (source ref) = Some ps"
    and "index ref < length ps"
    and "paint_type (ps ! index ref) = ''SOLID''"
    and "\<not> rejects_writes (doc_nodes doc ! i)"
  using assms getNodeById_Some [of "doc_nodes doc" "nodeId ref"]
  by (auto simp: outcome_def slot_of_def split: option.splits if_splits)

text \<open>
  Claim C5. When the merge rewrites a slot (the counter moves), the paint list of that
  kind of the node keeps its length, every other entry of it is the entry it was, and the
  entry at the slot differs from the old one in its colour only: type, visibility,
  opacity and blend mode are the old ones and the colour is the target colour.
\<close>

theorem rewrite_changes_only_the_color:
  assumes "apply_ref t ref (doc, n) = (doc', n')" and "n' \<noteq> n"
  shows "\<exists>i ps ps'.
           getNodeById (doc_nodes doc) (nodeId ref) = Some i
         \<and> slot_list (doc_nodes doc ! i) (source ref) = Some ps
         \<and> slot_list (doc_nodes doc' ! i) (source ref) = Some ps'
         \<and> index ref < length ps
         \<and> length ps' = length ps
         \<and> (\<forall>j. j \<noteq> index ref \<longrightarrow> ps' ! j = ps ! j)
         \<and> ps' ! index ref = (ps ! index ref)\<lparr>paint_color := t\<rparr>
         \<and> paint_color (ps' ! index ref) = t
         \<and> paint_type (ps' ! index ref) = paint_type (ps ! index ref)
         \<and> visible (ps' ! index ref) = visible (ps ! index ref)
         \<and> opacity (ps' ! index ref) = opacity (ps ! index ref)
         \<and> blendMode (ps' ! index ref) = blendMode (ps ! index ref)"
proof -
  from assms have o: "outcome doc ref = Rewritten" and d: "doc' = rewrite_slot t ref doc"
    by (auto simp: apply_ref_outcome split: if_splits)
  from o obtain i ps where i: "getNodeById (doc_nodes doc) (nodeId ref) = Some i"
    and l: "i < length (doc_nodes doc)"
    and ps: "slot_list (doc_nodes doc ! i) (source ref) = Some ps"
    and k: "index ref < length ps"
    by (rule outcome_Rewritten)
  let ?ps' = "recolor ps (index ref) t"
  have "slot_list (doc_nodes doc' ! i) (source ref) = Some ?ps'"
    using i l ps by (simp add: d rewrite_slot_def)
  moreover have "length ?ps' = length ps" "\<forall>j. j \<noteq> index ref \<longrightarrow> ?ps' ! j = ps ! j"
    "?ps' ! index ref = (ps ! index ref)\<lparr>paint_color := t\<rparr>"
    using k by (simp_all add: recolor_def)
  ultimately show ?thesis
    using i ps k by (intro exI [of _ i] exI [of _ ps] exI [of _ ?ps']) simp
qed

theorem rewrite_changes_only_the_color_witness:
  "apply_ref pure_green \<lparr>nodeId = ''1:2'', source = Fill, index = 0\<rparr> (two_reds, 0) =
     (\<lparr>doc_nodes =
         [\<lparr>node_id = ''1:1'', fills = Some (Paints [solid_paint pure_red]), strokes = None,
           rejects_writes = False\<rparr>,
          \<lparr>node_id = ''1:2'', fills = Some (Paints [solid_paint pure_green]), strokes = None,
           rejects_writes = False\<rparr>],
       doc_styles = []\<rparr>, 1)
   \<and> (\<exists>i ps ps'.
         getNodeById (doc_nodes two_reds) ''1:2'' = Some i
       \<and> slot_list (doc_nodes two_reds ! i) Fill = Some ps
       \<and> slot_list
           ([\<lparr>node_id = ''1:1'', fills = Some (Paints [solid_paint pure_red]), strokes = None,
              rejects_writes = False\<rparr>,
             \<lparr>node_id = ''1:2'', fills = Some (Paints [solid_paint pure_green]),
              strokes = None, rejects_writes = False\<rparr>] ! i) Fill = Some ps'
       \<and> length ps' = length ps
       \<and> ps' ! 0 = (ps ! 0)\<lparr>paint_color := pure_green\<rparr>
       \<and> blendMode (ps' ! 0) = blendMode (ps ! 0))"
proof -
  let ?ref = "\<lparr>nodeId = ''1:2'', source = Fill, index = 0\<rparr>"
  let ?doc' = "\<lparr>doc_nodes =
         [\<lparr>node_id = ''1:1'', fills = Some (Paints [solid_paint pure_red]), strokes = None,
           rejects_writes = False\<rparr>,
          \<lparr>node_id = ''1:2'', fills = Some (Paints [solid_paint pure_green]), strokes = None,
           rejects_writes = False\<rparr>],
       doc_styles = []\<rparr>"
  have e: "apply_ref pure_green ?ref (two_reds, 0) = (?doc', 1)"
    by (simp add: two_reds_def apply_ref_def try_block_def set_fills_def recolor_def
        solid_paint_def Let_def)
  from rewrite_changes_only_the_color [OF e]
  show ?thesis
    using e by auto
qed

section \<open>The paint style of a merge\<close>

lemma rewrite_slot_styles: "doc_styles (rewrite_slot t ref doc) = doc_styles doc"
  by (simp add: rewrite_slot_def split: option.splits)

lemma best_effort_merge_styles:
  "doc_styles (fst (best_effort_merge t refs doc)) = doc_styles doc"
  by (induction refs arbitrary: doc) (simp_all add: split_beta rewrite_slot_styles)

lemma applyMerge_styles: "doc_styles (fst (applyMerge groups h doc)) = doc_styles doc"
  by (simp add: applyMerge_fold_refs fold_apply_ref best_effort_merge_styles)

text \<open>
  Claim C6, as amended. The handler tests the style name for truthiness, and the empty
  string is falsy. For every merge message whose style name is a non-empty string, one
  style is appended to the styles of the document, under that name and with the single
  solid paint of the target colour; the styles that were there stay as they are, whatever
  the merge changed. With no style name or the empty one the styles are unchanged. The
  answer's \<open>styleCreated\<close> is true exactly for a non-empty style name.
\<close>

theorem style_created_for_non_empty_name:
  assumes "handle_merge msg doc = (doc', resp)"
  shows "(\<exists>changed. resp = MergeDone changed (truthy (msg_styleName msg)) (msg_styleName msg))
       \<and> (\<forall>name. msg_styleName msg = Some name \<and> name \<noteq> [] \<longrightarrow>
             doc_styles doc' =
               doc_styles doc @
                 [\<lparr>style_name = name,
                   style_paints = [solid_paint (hexToRgb (msg_targetHex msg))]\<rparr>])
       \<and> (msg_styleName msg = None \<or> msg_styleName msg = Some [] \<longrightarrow>
             doc_styles doc' = doc_styles doc)"
  using assms
  by (auto simp: handle_merge_eq Let_def createPaintStyle_def applyMerge_styles)

theorem style_created_for_non_empty_name_witness:
  "handle_merge
     \<lparr>msg_threshold = None, msg_groupIndices = [5], msg_targetHex = ''#00FF00'',
      msg_styleName = Some ''Brand''\<rparr> two_reds =
   (two_reds\<lparr>doc_styles :=
       [\<lparr>style_name = ''Brand'', style_paints = [solid_paint pure_green]\<rparr>]\<rparr>,
    MergeDone 0 True (Some ''Brand''))
   \<and> doc_styles
        (two_reds\<lparr>doc_styles :=
           [\<lparr>style_name = ''Brand'', style_paints = [solid_paint pure_green]\<rparr>]\<rparr>) =
       doc_styles two_reds @
         [\<lparr>style_name = ''Brand'', style_paints = [solid_paint (hexToRgb ''#00FF00'')]\<rparr>]"
proof -
  let ?msg = "\<lparr>msg_threshold = None, msg_groupIndices = [5], msg_targetHex = ''#00FF00'',
               msg_styleName = Some ''Brand''\<rparr>"
  let ?doc' = "two_reds\<lparr>doc_styles :=
       [\<lparr>style_name = ''Brand'', style_paints = [solid_paint pure_green]\<rparr>]\<rparr>"
  have e: "handle_merge ?msg two_reds = (?doc', MergeDone 0 True (Some ''Brand''))"
    by (simp add: handle_merge_eq threshold_of_def groups_two_reds_20 selectedGroups_filter
        applyMerge_Nil hexToRgb_green createPaintStyle_def)
      (simp add: two_reds_def)
  from style_created_for_non_empty_name [OF e]
  have "doc_styles ?doc' =
      doc_styles two_reds @
        [\<lparr>style_name = ''Brand'', style_paints = [solid_paint (hexToRgb ''#00FF00'')]\<rparr>]"
    by simp
  with e show ?thesis
    by blast
qed

lemma merge_two_reds_green:
  "handle_merge
     \<lparr>msg_threshold = None, msg_groupIndices = [0], msg_targetHex = ''#00FF00'',
      msg_styleName = Some ''''\<rparr> two_reds =
   (\<lparr>doc_nodes =
        [\<lparr>node_id = ''1:1'', fills = Some (Paints [solid_paint pure_green]), strokes = None,
          rejects_writes = False\<rparr>,
         \<lparr>node_id = ''1:2'', fills = Some (Paints [solid_paint pure_green]), strokes = None,
          rejects_writes = False\<rparr>],
      doc_styles = []\<rparr>,
    MergeDone 2 False (Some ''''))"
  unfolding handle_merge_eq
  by (simp add: threshold_of_def groups_two_reds_20 selectedGroups_def array_get_def
      hexToRgb_green applyMerge_def)
    (simp add: two_reds_def solid_paint_def pure_red_def near_red_def apply_ref_def
      try_block_def set_fills_def recolor_def Let_def)

theorem style_name_empty_counterexample:
  "msg_styleName
     \<lparr>msg_threshold = None, msg_groupIndices = [0], msg_targetHex = ''#00FF00'',
      msg_styleName = Some ''''\<rparr> \<noteq> None
   \<and> snd (handle_merge
            \<lparr>msg_threshold = None, msg_groupIndices = [0], msg_targetHex = ''#00FF00'',
             msg_styleName = Some ''''\<rparr> two_reds) = MergeDone 2 False (Some '''')
   \<and> doc_styles
        (fst (handle_merge
                \<lparr>msg_threshold = None, msg_groupIndices = [0], msg_targetHex = ''#00FF00'',
                 msg_styleName = Some ''''\<rparr> two_reds)) = []"
  by (simp add: merge_two_reds_green)

section \<open>The slot index of a scanned paint\<close>

lemma scanColors_gradient_then_red:
  "scanColors gradient_then_red =
     [(''FF0000'',
       \<lparr>color = \<lparr>red = 1, green = 0, blue = 0, alpha = 1\<rparr>, hex = ''FF0000'',
        nodes = [\<lparr>nodeId = ''1:1'', source = Fill, index = 0\<rparr>]\<rparr>)]"
  by (simp add: gradient_then_red_def gradient_paint_def pure_red_def scanColors_def
      scan_node_def add_paints_def add_ref_def solid_paint_def enumerate_eq_zip toHex_pure_red
      Let_def)

lemma groups_gradient_then_red:
  "groupSimilarColors (scanColors gradient_then_red) 20 =
     [\<lparr>representative =
         \<lparr>color = \<lparr>red = 1, green = 0, blue = 0, alpha = 1\<rparr>, hex = ''FF0000'',
          nodes = [\<lparr>nodeId = ''1:1'', source = Fill, index = 0\<rparr>]\<rparr>,
       members =
         [\<lparr>color = \<lparr>red = 1, green = 0, blue = 0, alpha = 1\<rparr>, hex = ''FF0000'',
           nodes = [\<lparr>nodeId = ''1:1'', source = Fill, index = 0\<rparr>]\<rparr>]\<rparr>]"
  by (simp add: scanColors_gradient_then_red group_eval not_array_index_reds)

lemma merge_gradient_then_red:
  "handle_merge
     \<lparr>msg_threshold = None, msg_groupIndices = [0], msg_targetHex = ''#00FF00'',
      msg_styleName = None\<rparr> gradient_then_red =
   (gradient_then_red, MergeDone 0 False None)"
  unfolding handle_merge_eq
  by (simp add: threshold_of_def groups_gradient_then_red selectedGroups_def array_get_def
      hexToRgb_green applyMerge_def)
    (simp add: gradient_then_red_def gradient_paint_def solid_paint_def apply_ref_def
      try_block_def Let_def)

text \<open>
  Claim C1 says that the slot index recorded for a paint is its position in the node's
  own paint list. The scan numbers the paints after \<^verbatim>\<open>filter\<close>: for a node whose fills
  are a gradient followed by a solid red, the red paint sits at position 1 and the
  reference recorded for it has index 0, the position of the gradient. The merge, which
  reads \<^verbatim>\<open>fills[ref.index]\<close> in the node's own list, then finds no solid paint there
  and leaves the red as it is.
\<close>

theorem scan_numbers_paints_after_filter:
  "scanColors gradient_then_red =
     [(''FF0000'',
       \<lparr>color = \<lparr>red = 1, green = 0, blue = 0, alpha = 1\<rparr>, hex = ''FF0000'',
        nodes = [\<lparr>nodeId = ''1:1'', source = Fill, index = 0\<rparr>]\<rparr>)]
   \<and> slot_of gradient_then_red \<lparr>nodeId = ''1:1'', source = Fill, index = 0\<rparr> =
       Some gradient_paint
   \<and> slot_of gradient_then_red \<lparr>nodeId = ''1:1'', source = Fill, index = 1\<rparr> =
       Some (solid_paint pure_red)
   \<and> handle_merge
        \<lparr>msg_threshold = None, msg_groupIndices = [0], msg_targetHex = ''#00FF00'',
         msg_styleName = None\<rparr> gradient_then_red =
       (gradient_then_red, MergeDone 0 False None)"
  by (simp add: scanColors_gradient_then_red merge_gradient_then_red)
    (simp add: slot_of_def gradient_then_red_def)

section \<open>The cluster builder\<close>

text \<open>
  The loops take the entries in the order of \<^verbatim>\<open>Object.values\<close>. That is the order in
  which the scan created them, except that a key which is a canonical decimal numeral,
  as the key of the colour \<^verbatim>\<open>#123456\<close> is, comes before every other key.
\<close>

lemma Object_values_array_indices_first:
  "Object_values [(''FF0000'', x), (''123456'', y), (''012345'', z), (''99'', w)] = [w, y, x, z]"
  by (simp add: Object_values_def is_array_index_def is_dec_digit_def dec_value_def
      digit_value_def)

subsection \<open>The sort\<close>

lemma insert_by_usage_desc:
  "insert_by by_usage_desc x xs = insort_key (\<lambda>g. - int (totalCount g)) x xs"
  by (induction xs) (simp_all add: by_usage_desc_def)

lemma Array_sort_by_usage_desc:
  "Array_sort by_usage_desc xs = sort_key (\<lambda>g. - int (totalCount g)) xs"
proof -
  have "insert_by by_usage_desc = insort_key (\<lambda>g. - int (totalCount g))"
    by (intro ext) (rule insert_by_usage_desc)
  then show ?thesis
    by (simp add: Array_sort_def sort_key_def)
qed

lemma totalCount_sum: "totalCount grp = sum_list (map (\<lambda>m. length (nodes m)) (members grp))"
proof -
  have "foldl (\<lambda>s m. s + length (nodes m)) a ms = a + sum_list (map (\<lambda>m. length (nodes m)) ms)"
    for a :: nat and ms :: "color_entry list"
    by (induction ms arbitrary: a) simp_all
  then show ?thesis
    by (simp add: totalCount_def)
qed

subsection \<open>The order in which the clusters are found\<close>

lemma subseq_representatives_outer_loop:
  "subseq (map representative (outer_loop t es A)) es"
proof (induction es arbitrary: A)
  case Nil
  then show ?case by simp
next
  case (Cons e es)
  show ?case
  proof (cases "hex e \<in> A")
    case True
    with Cons.IH [of A] show ?thesis
      by auto
  next
    case False
    obtain ms A' where i: "inner_loop e t es (insert (hex e) A) = (ms, A')"
      by (cases "inner_loop e t es (insert (hex e) A)")
    with False Cons.IH [of A'] show ?thesis
      by auto
  qed
qed

lemma Object_values_insertion_order:
  assumes "list_all (\<lambda>p. \<not> is_array_index (fst p)) obj"
  shows "Object_values obj = map snd obj"
proof -
  from assms have "filter (\<lambda>p. is_array_index (fst p)) obj = []"
    and "filter (\<lambda>p. \<not> is_array_index (fst p)) obj = obj"
    by (induction obj) simp_all
  then show ?thesis
    by (simp add: Object_values_def)
qed

text \<open>
  Claim C8, as amended. The clusters returned are in descending order of \<open>totalCount\<close>,
  the sum over the members of their numbers of references, and the clusters of one and the
  same \<open>totalCount\<close> stand in the order in which the two loops found them
  (\<open>discovered_groups\<close>, the array before the sort); the sort only permutes the
  clusters found. The loops find the clusters in the order in which \<^verbatim>\<open>Object.values\<close>
  enumerates their representatives. That is the order in which the scan created the
  entries when no key of the map is an array index, and not otherwise.
\<close>

theorem groups_sorted_by_usage_stable:
  "sorted_wrt (\<lambda>ga gb. totalCount gb \<le> totalCount ga) (groupSimilarColors colorMap threshold)
   \<and> (\<forall>k. filter (\<lambda>g. totalCount g = k) (groupSimilarColors colorMap threshold) =
            filter (\<lambda>g. totalCount g = k) (discovered_groups colorMap threshold))
   \<and> mset (groupSimilarColors colorMap threshold) = mset (discovered_groups colorMap threshold)
   \<and> (\<forall>g. totalCount g = sum_list (map (\<lambda>m. length (nodes m)) (members g)))
   \<and> subseq (map representative (discovered_groups colorMap threshold))
        (Object_values colorMap)
   \<and> (list_all (\<lambda>p. \<not> is_array_index (fst p)) colorMap \<longrightarrow>
        subseq (map representative (discovered_groups colorMap threshold)) (map snd colorMap))"
proof (intro conjI allI impI)
  let ?key = "\<lambda>g. - int (totalCount g)"
  let ?found = "discovered_groups colorMap threshold"
  have g: "groupSimilarColors colorMap threshold = sort_key ?key ?found"
    by (simp add: groupSimilarColors_def Array_sort_by_usage_desc)
  have "sorted (map ?key (sort_key ?key ?found))"
    by (rule sorted_sort_key)
  then show "sorted_wrt (\<lambda>ga gb. totalCount gb \<le> totalCount ga)
      (groupSimilarColors colorMap threshold)"
    by (simp add: g sorted_map)
  show "filter (\<lambda>g. totalCount g = k) (groupSimilarColors colorMap threshold) =
      filter (\<lambda>g. totalCount g = k) ?found" for k
    using sort_key_stable [of ?key "- int k" ?found] by (simp add: g)
  show "mset (groupSimilarColors colorMap threshold) = mset ?found"
    by (simp add: g)
  show "totalCount g = sum_list (map (\<lambda>m. length (nodes m)) (members g))" for g
    by (rule totalCount_sum)
  show e: "subseq (map representative ?found) (Object_values colorMap)"
    unfolding discovered_groups_def by (rule subseq_representatives_outer_loop)
  show "subseq (map representative ?found) (map snd colorMap)"
    if "list_all (\<lambda>p. \<not> is_array_index (fst p)) colorMap"
    using e Object_values_insertion_order [OF that] by simp
qed

lemma toHex_pure_blue: "toHex 0 0 1 = ''0000FF''"
  by (simp add: codec_eval)

lemma toHex_pure_green: "toHex 0 1 0 = ''00FF00''"
  by (simp add: codec_eval)

lemma not_array_index_blue_green: "\<not> is_array_index ''0000FF''" "\<not> is_array_index ''00FF00''"
  by (simp_all add: is_array_index_def is_dec_digit_def)

lemma scanColors_blue_then_two_greens:
  "scanColors blue_then_two_greens =
     [(''0000FF'',
       \<lparr>color = \<lparr>red = 0, green = 0, blue = 1, alpha = 1\<rparr>, hex = ''0000FF'',
        nodes = [\<lparr>nodeId = ''1:1'', source = Fill, index = 0\<rparr>]\<rparr>),
      (''00FF00'',
       \<lparr>color = \<lparr>red = 0, green = 1, blue = 0, alpha = 1\<rparr>, hex = ''00FF00'',
        nodes = [\<lparr>nodeId = ''1:2'', source = Fill, index = 0\<rparr>,
                 \<lparr>nodeId = ''1:2'', source = Stroke, index = 0\<rparr>]\<rparr>)]"
  by (simp add: blue_then_two_greens_def pure_blue_def pure_green_def scanColors_def
      scan_node_def add_paints_def add_ref_def solid_paint_def enumerate_eq_zip toHex_pure_blue
      toHex_pure_green Let_def)

theorem groups_sorted_by_usage_stable_witness:
  "map (\<lambda>g. (hex (representative g), totalCount g))
     (discovered_groups (scanColors blue_then_two_greens) 0) = [(''0000FF'', 1), (''00FF00'', 2)]
   \<and> map (\<lambda>g. (hex (representative g), totalCount g))
       (groupSimilarColors (scanColors blue_then_two_greens) 0) =
       [(''00FF00'', 2), (''0000FF'', 1)]
   \<and> sorted_wrt (\<lambda>ga gb. totalCount gb \<le> totalCount ga)
       (groupSimilarColors (scanColors blue_then_two_greens) 0)
   \<and> filter (\<lambda>g. totalCount g = 1) (groupSimilarColors (scanColors two_reds) 0) =
       filter (\<lambda>g. totalCount g = 1) (discovered_groups (scanColors two_reds) 0)
   \<and> list_all (\<lambda>p. \<not> is_array_index (fst p)) (scanColors blue_then_two_greens)
   \<and> subseq (map representative (discovered_groups (scanColors blue_then_two_greens) 0))
       (map snd (scanColors blue_then_two_greens))"
proof -
  have a: "map (\<lambda>g. (hex (representative g), totalCount g))
     (discovered_groups (scanColors blue_then_two_greens) 0) = [(''0000FF'', 1), (''00FF00'', 2)]"
    by (simp add: scanColors_blue_then_two_greens group_eval not_array_index_blue_green)
  have b: "map (\<lambda>g. (hex (representative g), totalCount g))
       (groupSimilarColors (scanColors blue_then_two_greens) 0) =
       [(''00FF00'', 2), (''0000FF'', 1)]"
    by (simp add: scanColors_blue_then_two_greens group_eval not_array_index_blue_green)
  have n: "list_all (\<lambda>p. \<not> is_array_index (fst p)) (scanColors blue_then_two_greens)"
    by (simp add: scanColors_blue_then_two_greens not_array_index_blue_green)
  from groups_sorted_by_usage_stable [of "scanColors blue_then_two_greens" 0]
  have c: "sorted_wrt (\<lambda>ga gb. totalCount gb \<le> totalCount ga)
       (groupSimilarColors (scanColors blue_then_two_greens) 0)"
    by blast
  from n groups_sorted_by_usage_stable [of "scanColors blue_then_two_greens" 0]
  have s: "subseq (map representative (discovered_groups (scanColors blue_then_two_greens) 0))
       (map snd (scanColors blue_then_two_greens))"
    by blast
  from groups_sorted_by_usage_stable [of "scanColors two_reds" 0]
  have d: "filter (\<lambda>g. totalCount g = 1) (groupSimilarColors (scanColors two_reds) 0) =
       filter (\<lambda>g. totalCount g = 1) (discovered_groups (scanColors two_reds) 0)"
    by blast
  from a b c d n s show ?thesis
    by blast
qed

text \<open>
  The scan of a red node and a node filled \<^verbatim>\<open>#123456\<close> creates the entry of the red
  first. Both clusters of threshold 0 have one reference, and the one of \<^verbatim>\<open>123456\<close>
  is returned first.
\<close>

lemma toHex_ink_123456: "toHex (6 / 85) (52 / 255) (86 / 255) = ''123456''"
  by (simp add: codec_eval)

lemma array_index_123456: "is_array_index ''123456''"
  by (simp add: is_array_index_def is_dec_digit_def dec_value_def digit_value_def)

lemma scanColors_red_then_123456:
  "scanColors red_then_123456 =
     [(''FF0000'',
       \<lparr>color = \<lparr>red = 1, green = 0, blue = 0, alpha = 1\<rparr>, hex = ''FF0000'',
        nodes = [\<lparr>nodeId = ''1:1'', source = Fill, index = 0\<rparr>]\<rparr>),
      (''123456'',
       \<lparr>color = \<lparr>red = 18 / 255, green = 52 / 255, blue = 86 / 255, alpha = 1\<rparr>,
        hex = ''123456'',
        nodes = [\<lparr>nodeId = ''1:2'', source = Fill, index = 0\<rparr>]\<rparr>)]"
  by (simp add: red_then_123456_def pure_red_def ink_123456_def scanColors_def scan_node_def
      add_paints_def add_ref_def solid_paint_def enumerate_eq_zip toHex_pure_red
      toHex_ink_123456 Let_def)

theorem scan_order_of_ties_counterexample:
  "map fst (scanColors red_then_123456) = [''FF0000'', ''123456'']
   \<and> map (\<lambda>g. (hex (representative g), totalCount g))
       (groupSimilarColors (scanColors red_then_123456) 0) =
       [(''123456'', 1), (''FF0000'', 1)]"
  by (simp add: scanColors_red_then_123456 group_eval not_array_index_reds
      array_index_123456)

subsection \<open>The entries in enumeration order\<close>

lemma mset_Object_values: "mset (Object_values obj) = mset (map snd obj)"
proof -
  have "image_mset snd (filter_mset P (mset xs)) + image_mset snd (filter_mset (\<lambda>p. \<not> P p) (mset xs))
      = image_mset snd (mset xs)" for P and xs :: "(string \<times> 'a) list"
    by (induction xs) simp_all
  then show ?thesis
    by (simp add: Object_values_def)
qed

lemma color_entry_map_hex:
  assumes "color_entry_map colorMap"
  shows "map (\<lambda>p. hex (snd p)) colorMap = map fst colorMap"
proof -
  from assms have "\<forall>p \<in> set colorMap. hex (snd p) = fst p"
    unfolding color_entry_map_def list_all_iff by blast
  then show ?thesis
    by simp
qed

lemma distinct_hex_Object_values:
  assumes "color_entry_map colorMap"
  shows "distinct (map hex (Object_values colorMap))"
proof -
  have "mset (map hex (Object_values colorMap)) = mset (map (\<lambda>p. hex (snd p)) colorMap)"
    by (simp add: mset_Object_values multiset.map_comp comp_def)
  moreover have "distinct (map (\<lambda>p. hex (snd p)) colorMap)"
    using assms unfolding color_entry_map_hex [OF assms] by (simp add: color_entry_map_def)
  ultimately show ?thesis
    using mset_eq_imp_distinct_iff by blast
qed

subsection \<open>The two loops\<close>

lemma inner_loop_assigned:
  "inner_loop rep t es A = (ms, A') \<Longrightarrow> A' = A \<union> hex ` set ms \<and> set ms \<subseteq> set es"
proof (induction es arbitrary: A ms A')
  case Nil
  then show ?case by simp
next
  case (Cons e es)
  show ?case
  proof (cases "hex e \<in> A")
    case True
    with Cons.prems have "inner_loop rep t es A = (ms, A')"
      by simp
    from Cons.IH [OF this] show ?thesis
      by auto
  next
    case False
    show ?thesis
    proof (cases "colorDistance (color rep) (color e) \<le> t")
      case True
      with False Cons.prems obtain ms' where
        i: "inner_loop rep t es (insert (hex e) A) = (ms', A')" and m: "ms = e # ms'"
        by (auto split: prod.splits)
      from Cons.IH [OF i] show ?thesis
        by (auto simp: m)
    next
      case far: False
      with False Cons.prems have "inner_loop rep t es A = (ms, A')"
        by simp
      from Cons.IH [OF this] show ?thesis
        by auto
    qed
  qed
qed

lemma filter_mset_not_assigned:
  assumes "h \<notin> hex ` set es"
  shows "{#x \<in># mset es. hex x \<noteq> h \<and> hex x \<notin> A#} = {#x \<in># mset es. hex x \<notin> A#}"
  using assms by (induction es) auto

lemma inner_loop_mset:
  assumes "distinct (map hex es)" and "inner_loop rep t es A = (ms, A')"
  shows "mset ms + mset (filter (\<lambda>x. hex x \<notin> A') es) = mset (filter (\<lambda>x. hex x \<notin> A) es)"
  using assms
proof (induction es arbitrary: A ms A')
  case Nil
  then show ?case by simp
next
  case (Cons e es)
  from Cons.prems(1) have d: "distinct (map hex es)" and n: "hex e \<notin> hex ` set es"
    by auto
  show ?case
  proof (cases "hex e \<in> A")
    case True
    with Cons.prems(2) have i: "inner_loop rep t es A = (ms, A')"
      by simp
    from inner_loop_assigned [OF i] True have "hex e \<in> A'"
      by simp
    with True Cons.IH [OF d i] show ?thesis
      by simp
  next
    case False
    show ?thesis
    proof (cases "colorDistance (color rep) (color e) \<le> t")
      case True
      with False Cons.prems(2) obtain ms' where
        i: "inner_loop rep t es (insert (hex e) A) = (ms', A')" and m: "ms = e # ms'"
        by (auto split: prod.splits)
      from inner_loop_assigned [OF i] have "hex e \<in> A'"
        by simp
      with False Cons.IH [OF d i] show ?thesis
        by (simp add: m filter_mset_not_assigned [OF n])
    next
      case far: False
      with False Cons.prems(2) have i: "inner_loop rep t es A = (ms, A')"
        by simp
      from inner_loop_assigned [OF i] n False have "hex e \<notin> A'"
        by auto
      with False Cons.IH [OF d i] show ?thesis
        by simp
    qed
  qed
qed

lemma outer_loop_mset:
  assumes "distinct (map hex es)"
  shows "mset (concat (map members (outer_loop t es A))) = mset (filter (\<lambda>x. hex x \<notin> A) es)"
  using assms
proof (induction es arbitrary: A)
  case Nil
  then show ?case by simp
next
  case (Cons e es)
  from Cons.prems have d: "distinct (map hex es)" and n: "hex e \<notin> hex ` set es"
    by auto
  show ?case
  proof (cases "hex e \<in> A")
    case True
    with Cons.IH [OF d] show ?thesis
      by simp
  next
    case False
    obtain ms A' where i: "inner_loop e t es (insert (hex e) A) = (ms, A')"
      by (cases "inner_loop e t es (insert (hex e) A)")
    from inner_loop_mset [OF d i] Cons.IH [OF d, of A'] False show ?thesis
      by (simp add: i filter_mset_not_assigned [OF n])
  qed
qed

subsection \<open>The clusters partition the entries\<close>

lemma mset_concat_map_cong:
  assumes "mset xs = mset ys"
  shows "mset (concat (map f xs)) = mset (concat (map f ys))"
proof -
  have "mset (concat (map f zs)) = sum_mset (image_mset (\<lambda>z. mset (f z)) (mset zs))" for zs
    by (induction zs) simp_all
  with assms show ?thesis
    by simp
qed

lemma concat_unique_index:
  assumes "distinct (concat xss)" and "i < length xss" and "j < length xss"
    and "x \<in> set (xss ! i)" and "x \<in> set (xss ! j)"
  shows "i = j"
  using assms
proof (induction xss arbitrary: i j)
  case Nil
  then show ?case by simp
next
  case (Cons xs xss)
  from Cons.prems(1) have d: "distinct (concat xss)" and disj: "set xs \<inter> set (concat xss) = {}"
    by auto
  have later: "x \<notin> set xs" if "k < length xss" and "x \<in> set (xss ! k)" for k
  proof -
    from that(1) have "xss ! k \<in> set xss"
      by simp
    with that(2) have "x \<in> set (concat xss)"
      by auto
    with disj show ?thesis
      by auto
  qed
  show ?case
  proof (cases i)
    case 0
    show ?thesis
    proof (cases j)
      case 0
      with \<open>i = 0\<close> show ?thesis by simp
    next
      case (Suc j')
      with Cons.prems(3,5) later [of j'] Cons.prems(4) \<open>i = 0\<close> show ?thesis
        by simp
    qed
  next
    case (Suc i')
    show ?thesis
    proof (cases j)
      case 0
      with Cons.prems(2,4) later [of i'] Cons.prems(5) Suc show ?thesis
        by simp
    next
      case j: (Suc j')
      with Suc Cons.prems Cons.IH [OF d, of i' j'] show ?thesis
        by simp
    qed
  qed
qed

lemma discovered_groups_mset:
  assumes "color_entry_map colorMap"
  shows "mset (concat (map members (discovered_groups colorMap t))) = mset (map snd colorMap)"
  using outer_loop_mset [OF distinct_hex_Object_values [OF assms], of t "{}"]
  by (simp add: discovered_groups_def mset_Object_values)

lemma groupSimilarColors_mset:
  "mset (groupSimilarColors colorMap t) = mset (discovered_groups colorMap t)"
  by (simp add: groupSimilarColors_def Array_sort_by_usage_desc)

lemma distinct_entries:
  assumes "color_entry_map colorMap"
  shows "distinct (map snd colorMap)"
proof -
  have "distinct (map fst colorMap)"
    using assms by (simp add: color_entry_map_def)
  then have "distinct (map (\<lambda>p. hex (snd p)) colorMap)"
    by (simp only: color_entry_map_hex [OF assms])
  then have "distinct (map hex (map snd colorMap))"
    by (simp add: comp_def)
  then show ?thesis
    using distinct_map by blast
qed

text \<open>
  Claim C4. For a colour-entry map and any threshold, the member lists of the clusters
  returned hold every entry of the map exactly once between them: their concatenation has
  no repetition and is the collection of the entries, and every entry is in the member
  list of exactly one cluster.
\<close>

theorem groups_partition_the_entries:
  assumes "color_entry_map colorMap"
  shows "mset (concat (map members (groupSimilarColors colorMap threshold))) =
           mset (map snd colorMap)
       \<and> distinct (concat (map members (groupSimilarColors colorMap threshold)))
       \<and> (\<forall>e \<in> set (map snd colorMap).
            \<exists>!i. i < length (groupSimilarColors colorMap threshold)
                 \<and> e \<in> set (members (groupSimilarColors colorMap threshold ! i)))"
proof -
  let ?gs = "groupSimilarColors colorMap threshold"
  have m: "mset (concat (map members ?gs)) = mset (map snd colorMap)"
    using mset_concat_map_cong [OF groupSimilarColors_mset, of members colorMap threshold]
      discovered_groups_mset [OF assms, of threshold]
    by simp
  have d: "distinct (concat (map members ?gs))"
    using m distinct_entries [OF assms] mset_eq_imp_distinct_iff by blast
  have u: "\<exists>!i. i < length ?gs \<and> e \<in> set (members (?gs ! i))"
    if "e \<in> set (map snd colorMap)" for e
  proof -
    from that m have "e \<in> set (concat (map members ?gs))"
      by (metis set_mset_mset)
    then obtain g where "g \<in> set ?gs" and g: "e \<in> set (members g)"
      by auto
    then obtain i where i: "i < length ?gs" "e \<in> set (members (?gs ! i))"
      by (metis in_set_conv_nth)
    moreover have "j = i" if "j < length ?gs" "e \<in> set (members (?gs ! j))" for j
      using concat_unique_index [OF d, of j i e] that i by simp
    ultimately show ?thesis
      by blast
  qed
  from m d u show ?thesis
    by blast
qed

subsection \<open>Every scan gives a colour-entry map\<close>

lemma add_ref_color_entry_map:
  assumes "color_entry_map colorMap"
  shows "color_entry_map (add_ref colorMap c ref)"
proof -
  define h where "h = toHex (red c) (green c) (blue c)"
  define e where "e = (case map_of colorMap h of
      None \<Rightarrow> \<lparr>color = c, hex = h, nodes = []\<rparr> | Some e \<Rightarrow> e)"
  define P :: "string \<times> color_entry \<Rightarrow> bool" where
    "P = (\<lambda>p. hex (snd p) = fst p
        \<and> hex (snd p) = toHex (red (color (snd p))) (green (color (snd p))) (blue (color (snd p))))"
  have all: "\<forall>p \<in> set colorMap. P p" and d: "distinct (map fst colorMap)"
    using assms unfolding color_entry_map_def list_all_iff P_def by blast+
  have "P (h, e)"
  proof (cases "map_of colorMap h")
    case None
    then show ?thesis
      by (simp add: e_def h_def P_def)
  next
    case (Some e')
    then have "(h, e') \<in> set colorMap"
      by (rule map_of_SomeD)
    with all have "P (h, e')"
      by blast
    with Some show ?thesis
      by (simp add: e_def)
  qed
  then have e: "P (h, e\<lparr>nodes := nodes e @ [ref]\<rparr>)"
    by (auto simp: P_def)
  have keep: "\<forall>p \<in> set (AList.update k v al). P p"
    if "\<forall>p \<in> set al. P p" and "P (k, v)" for k v al
    using that by (induction al) auto
  have "\<forall>p \<in> set (AList.update h (e\<lparr>nodes := nodes e @ [ref]\<rparr>) colorMap). P p"
    using all e by (rule keep)
  moreover have "distinct (map fst (AList.update h (e\<lparr>nodes := nodes e @ [ref]\<rparr>) colorMap))"
    using d by (rule distinct_update)
  ultimately show ?thesis
    unfolding color_entry_map_def list_all_iff add_ref_def Let_def h_def [symmetric]
      e_def [symmetric] P_def
    by blast
qed

lemma add_paints_color_entry_map:
  assumes "color_entry_map colorMap"
  shows "color_entry_map (add_paints nid kind cs colorMap)"
proof -
  have "color_entry_map
      (fold (\<lambda>(i, c) m. add_ref m c \<lparr>nodeId = nid, source = kind, index = i\<rparr>) ics colorMap)"
    for ics
    using assms
    by (induction ics arbitrary: colorMap) (auto simp: add_ref_color_entry_map)
  then show ?thesis
    by (simp add: add_paints_def)
qed

lemma scan_node_color_entry_map:
  "color_entry_map colorMap \<Longrightarrow> color_entry_map (scan_node n colorMap)"
  by (simp add: scan_node_def Let_def add_paints_color_entry_map)

lemma scanColors_color_entry_map: "color_entry_map (scanColors doc)"
proof -
  have "color_entry_map (fold scan_node ns colorMap)" if "color_entry_map colorMap"
    for ns colorMap
    using that by (induction ns arbitrary: colorMap) (simp_all add: scan_node_color_entry_map)
  moreover have "color_entry_map []"
    by (simp add: color_entry_map_def)
  ultimately show ?thesis
    by (simp add: scanColors_def)
qed

theorem groups_partition_the_entries_witness:
  "color_entry_map (scanColors two_reds)
   \<and> map hex (concat (map members (groupSimilarColors (scanColors two_reds) 20))) =
       [''FF0000'', ''FE0101'']
   \<and> mset (concat (map members (groupSimilarColors (scanColors two_reds) 20))) =
       mset (map snd (scanColors two_reds))
   \<and> distinct (concat (map members (groupSimilarColors (scanColors two_reds) 20)))"
proof -
  have w: "color_entry_map (scanColors two_reds)"
    by (simp add: scanColors_two_reds color_entry_map_def toHex_pure_red toHex_near_red)
  have "map hex (concat (map members (groupSimilarColors (scanColors two_reds) 20))) =
       [''FF0000'', ''FE0101'']"
    by (simp add: groups_two_reds_20)
  with w groups_partition_the_entries [OF w, of 20] show ?thesis
    by blast
qed

subsection \<open>Threshold zero\<close>

lemma colorDistance_le_0_iff:
  "colorDistance c d \<le> 0 \<longleftrightarrow> red c = red d \<and> green c = green d \<and> blue c = blue d"
proof -
  have "x * x + y * y + z * z \<le> 0 \<longleftrightarrow> x = 0 \<and> y = 0 \<and> z = 0" for x y z :: real
  proof
    assume s: "x * x + y * y + z * z \<le> 0"
    have "0 \<le> x * x" "0 \<le> y * y" "0 \<le> z * z"
      by simp_all
    with s have "x * x = 0" "y * y = 0" "z * z = 0"
      by linarith+
    then show "x = 0 \<and> y = 0 \<and> z = 0"
      by simp
  next
    assume "x = 0 \<and> y = 0 \<and> z = 0"
    then show "x * x + y * y + z * z \<le> 0"
      by simp
  qed
  then show ?thesis
    by (simp add: colorDistance_le_iff distance_le_def Let_def)
qed

lemma inner_loop_zero:
  assumes "hex rep = toHex (red (color rep)) (green (color rep)) (blue (color rep))"
    and "\<forall>e \<in> set es. hex e = toHex (red (color e)) (green (color e)) (blue (color e))"
    and "hex rep \<in> A"
  shows "inner_loop rep 0 es A = ([], A)"
  using assms(2)
proof (induction es)
  case Nil
  then show ?case by simp
next
  case (Cons e es)
  have "hex e = hex rep" if "colorDistance (color rep) (color e) \<le> 0"
    using that assms(1) Cons.prems by (simp add: colorDistance_le_0_iff)
  with assms(3) have "hex e \<notin> A \<Longrightarrow> \<not> colorDistance (color rep) (color e) \<le> 0"
    by auto
  with Cons show ?case
    by auto
qed

lemma filter_not_assigned_insert:
  assumes "h \<notin> hex ` set es"
  shows "filter (\<lambda>x. hex x \<noteq> h \<and> hex x \<notin> A) es = filter (\<lambda>x. hex x \<notin> A) es"
  using assms by (induction es) auto

lemma outer_loop_zero:
  assumes "distinct (map hex es)"
    and "\<forall>e \<in> set es. hex e = toHex (red (color e)) (green (color e)) (blue (color e))"
  shows "outer_loop 0 es A =
           map (\<lambda>e. \<lparr>representative = e, members = [e]\<rparr>) (filter (\<lambda>e. hex e \<notin> A) es)"
  using assms
proof (induction es arbitrary: A)
  case Nil
  then show ?case by simp
next
  case (Cons e es)
  from Cons.prems have d: "distinct (map hex es)" and n: "hex e \<notin> hex ` set es"
    and c: "\<forall>e \<in> set es. hex e = toHex (red (color e)) (green (color e)) (blue (color e))"
    and ce: "hex e = toHex (red (color e)) (green (color e)) (blue (color e))"
    by auto
  have i: "inner_loop e 0 es (insert (hex e) A) = ([], insert (hex e) A)"
    using ce c by (rule inner_loop_zero) simp
  show ?case
    using Cons.IH [OF d c]
    by (simp add: i del: outer_loop.simps(2) add: outer_loop.simps(2) [of 0 e es A]
        filter_not_assigned_insert [OF n])
qed

lemma canonical_Object_values:
  assumes "color_entry_map colorMap"
  shows "\<forall>e \<in> set (Object_values colorMap).
           hex e = toHex (red (color e)) (green (color e)) (blue (color e))"
proof -
  have "set (Object_values colorMap) = snd ` set colorMap"
    using mset_Object_values [of colorMap] by (metis set_map set_mset_mset)
  with assms show ?thesis
    unfolding color_entry_map_def list_all_iff by auto
qed

lemma length_Object_values: "length (Object_values obj) = length obj"
  using mset_Object_values [of obj] by (metis length_map size_mset)

text \<open>
  Claim C9. For a colour-entry map, the clustering with threshold 0 has as many clusters
  as the map has entries, every cluster has its representative as its only member, and
  the representatives are the entries of the map: no two entries share a cluster.
\<close>

theorem threshold_zero_one_cluster_per_key:
  assumes "color_entry_map colorMap"
  shows "length (groupSimilarColors colorMap 0) = length colorMap
       \<and> (\<forall>g \<in> set (groupSimilarColors colorMap 0). members g = [representative g])
       \<and> mset (map representative (groupSimilarColors colorMap 0)) = mset (map snd colorMap)"
proof -
  let ?single = "\<lambda>e. \<lparr>representative = e, members = [e]\<rparr>"
  have f: "discovered_groups colorMap 0 = map ?single (Object_values colorMap)"
    using outer_loop_zero [OF distinct_hex_Object_values [OF assms]
        canonical_Object_values [OF assms], of "{}"]
    by (simp add: discovered_groups_def)
  have m: "mset (groupSimilarColors colorMap 0) = mset (map ?single (Object_values colorMap))"
    by (simp only: groupSimilarColors_mset f)
  have "length (groupSimilarColors colorMap 0) = length (map ?single (Object_values colorMap))"
    using m by (metis size_mset)
  then have l: "length (groupSimilarColors colorMap 0) = length colorMap"
    by (simp add: length_Object_values)
  have "set (groupSimilarColors colorMap 0) = set (map ?single (Object_values colorMap))"
    using m by (metis set_mset_mset)
  then have s: "\<forall>g \<in> set (groupSimilarColors colorMap 0). members g = [representative g]"
    by auto
  have "mset (map representative (groupSimilarColors colorMap 0)) =
      mset (map representative (map ?single (Object_values colorMap)))"
    using m by (metis mset_map)
  then have r: "mset (map representative (groupSimilarColors colorMap 0)) =
      mset (map snd colorMap)"
    by (simp add: comp_def mset_Object_values)
  from l s r show ?thesis
    by blast
qed

theorem threshold_zero_one_cluster_per_key_witness:
  "color_entry_map (scanColors two_reds)
   \<and> length (scanColors two_reds) = 2
   \<and> length (groupSimilarColors (scanColors two_reds) 0) = length (scanColors two_reds)
   \<and> length (groupSimilarColors (scanColors two_reds) 20) = 1"
proof -
  have w: "color_entry_map (scanColors two_reds)"
    by (simp add: scanColors_two_reds color_entry_map_def toHex_pure_red toHex_near_red)
  have "length (scanColors two_reds) = 2"
    by (simp add: scanColors_two_reds)
  moreover have "length (groupSimilarColors (scanColors two_reds) 20) = 1"
    by (simp add: groups_two_reds_20)
  ultimately show ?thesis
    using w threshold_zero_one_cluster_per_key [OF w]
    by blast
qed

end
